theory Spec2Isabelle
  imports Main
begin

text \<open>
  A model of \<^verbatim>\<open>lib/client.js\<close>, the discovery client for Chromecast devices: the
  identifier normalizer \<^verbatim>\<open>parseUUID\<close>, the reconciliation \<^verbatim>\<open>_updateDevice\<close>, the handlers of
  mDNS answers and SSDP responses, and the timer of the garbage collector. The client is a
  record of its two tables with the trace of what it emitted; each handler is a function
  from the client before to the client after, or to the exception that leaves it. The
  network transports, the TXT decoder, the HTTP client and the XML parser are not in the
  sources: the inputs of the model are what they hand to the handlers.
\<close>

section \<open>JavaScript values\<close>

text \<open>
  The properties that \<^verbatim>\<open>lib/client.js\<close> stores in its staged fragments and device
  records are strings, \<^verbatim>\<open>null\<close> or \<^verbatim>\<open>undefined\<close>; values of other types (a TXT key
  without a value decodes to \<^verbatim>\<open>true\<close>) are outside the model.
\<close>

datatype jsval = Undefined | Null | Str string

text \<open>Truthiness, as \<^verbatim>\<open>if (v)\<close> and \<^verbatim>\<open>!v\<close> read it.\<close>

fun truthy :: "jsval \<Rightarrow> bool" where
  "truthy Undefined = False"
| "truthy Null = False"
| "truthy (Str s) = (s \<noteq> [])"

text \<open>
  The loose inequality \<^verbatim>\<open>a != b\<close>: \<^verbatim>\<open>null\<close> and \<^verbatim>\<open>undefined\<close> are equal to
  each other and to nothing else, two strings are compared by content.
\<close>

fun js_neq :: "jsval \<Rightarrow> jsval \<Rightarrow> bool" where
  "js_neq (Str a) (Str b) = (a \<noteq> b)"
| "js_neq (Str a) Undefined = True"
| "js_neq (Str a) Null = True"
| "js_neq Undefined (Str b) = True"
| "js_neq Null (Str b) = True"
| "js_neq Undefined Undefined = False"
| "js_neq Undefined Null = False"
| "js_neq Null Undefined = False"
| "js_neq Null Null = False"

text \<open>\<^verbatim>\<open>a || b\<close>.\<close>

definition js_or :: "jsval \<Rightarrow> jsval \<Rightarrow> jsval" where
  "js_or a b = (if truthy a then a else b)"

text \<open>The property key that a value stands for in \<^verbatim>\<open>obj[v]\<close> (ToString).\<close>

fun key_of :: "jsval \<Rightarrow> string" where
  "key_of Undefined = ''undefined''"
| "key_of Null = ''null''"
| "key_of (Str s) = s"

text \<open>\<^verbatim>\<open>s.toLowerCase()\<close> on the letters of ASCII.\<close>

definition lower_char :: "char \<Rightarrow> char" where
  "lower_char ch =
     (let n = (of_char ch :: nat) in if 65 \<le> n \<and> n \<le> 90 then char_of (n + 32) else ch)"

definition toLowerCase :: "string \<Rightarrow> string" where
  "toLowerCase s = map lower_char s"

section \<open>The identifier normalizer: \<^verbatim>\<open>parseUUID\<close>\<close>

definition is_hex :: "char \<Rightarrow> bool" where
  "is_hex c = (c \<in> set ''0123456789abcdefABCDEF'')"

text \<open>\<open>hex_run n s\<close>: the text \<open>s\<close> starts with \<open>n\<close> hexadecimal digits (\<^verbatim>\<open>[0-9a-f]{n}\<close>
  under the flag \<^verbatim>\<open>i\<close>).\<close>

fun hex_run :: "nat \<Rightarrow> string \<Rightarrow> bool" where
  "hex_run 0 s = True"
| "hex_run (Suc n) [] = False"
| "hex_run (Suc n) (c # cs) = (is_hex c \<and> hex_run n cs)"

text \<open>\<open>groups ns s\<close>: \<open>s\<close> starts with runs of hexadecimal digits of the lengths \<open>ns\<close>,
  one hyphen between two runs.\<close>

fun groups :: "nat list \<Rightarrow> string \<Rightarrow> bool" where
  "groups [] s = True"
| "groups [n] s = hex_run n s"
| "groups (n # m # ns) s =
     (hex_run n s \<and>
      (case drop n s of [] \<Rightarrow> False | c # cs \<Rightarrow> c = CHR ''-'' \<and> groups (m # ns) cs))"

text \<open>\<^verbatim>\<open>UUID_REGEX\<close> and \<^verbatim>\<open>UUID_REGEX_NO_HYPENS\<close>, as tests of a match that starts at
  the head of the text, with the length of the text they match.\<close>

definition UUID_REGEX :: "string \<Rightarrow> bool" where
  "UUID_REGEX s = groups [8, 4, 4, 4, 12] s"

definition UUID_REGEX_NO_HYPENS :: "string \<Rightarrow> bool" where
  "UUID_REGEX_NO_HYPENS s = hex_run 32 s"

text \<open>\<^verbatim>\<open>data.match(re)\<close> for a pattern without the flag \<^verbatim>\<open>g\<close> whose matches all have
  the length \<open>n\<close>: the leftmost match, \<open>None\<close> for \<^verbatim>\<open>null\<close>.\<close>

fun match :: "(string \<Rightarrow> bool) \<Rightarrow> nat \<Rightarrow> string \<Rightarrow> string option" where
  "match re n [] = (if re [] then Some [] else None)"
| "match re n (c # cs) = (if re (c # cs) then Some (take n (c # cs)) else match re n cs)"

text \<open>\<^verbatim>\<open>s.replace('-', '')\<close>: a string pattern replaces its first occurrence only.\<close>

definition replace_first_hyphen :: "string \<Rightarrow> string" where
  "replace_first_hyphen s = remove1 (CHR ''-'') s"

definition parseUUID :: "string \<Rightarrow> string" where
  "parseUUID data =
     (case match UUID_REGEX 36 data of
        Some m \<Rightarrow> replace_first_hyphen m
      | None \<Rightarrow>
          (case match UUID_REGEX_NO_HYPENS 32 data of
             Some m \<Rightarrow> m
           | None \<Rightarrow> data))"

text \<open>\<^verbatim>\<open>s.replace(/-/g, '')\<close> and \<^verbatim>\<open>s.replace(/uuid:/g, '')\<close>: every occurrence goes,
  scanning from the left without looking again at what a replacement left.\<close>

definition strip_hyphens :: "string \<Rightarrow> string" where
  "strip_hyphens s = filter (\<lambda>c. c \<noteq> CHR ''-'') s"

fun strip_uuid_prefix :: "string \<Rightarrow> string" where
  "strip_uuid_prefix [] = []"
| "strip_uuid_prefix (c # cs) =
     (if take 5 (c # cs) = ''uuid:'' then strip_uuid_prefix (drop 4 cs)
      else c # strip_uuid_prefix cs)"

subsection \<open>What the contract of the normalizer speaks of\<close>

text \<open>A hyphenated identifier: 36 characters, hexadecimal digits in groups of 8, 4, 4, 4
  and 12 with a hyphen after each group but the last.\<close>

definition hyphenated_uuid :: "string \<Rightarrow> bool" where
  "hyphenated_uuid m =
     (length m = 36 \<and>
      list_all is_hex (take 8 m) \<and> m ! 8 = CHR ''-'' \<and>
      list_all is_hex (take 4 (drop 9 m)) \<and> m ! 13 = CHR ''-'' \<and>
      list_all is_hex (take 4 (drop 14 m)) \<and> m ! 18 = CHR ''-'' \<and>
      list_all is_hex (take 4 (drop 19 m)) \<and> m ! 23 = CHR ''-'' \<and>
      list_all is_hex (drop 24 m))"

definition bare_uuid :: "string \<Rightarrow> bool" where
  "bare_uuid m = (length m = 32 \<and> list_all is_hex m)"

text \<open>\<open>occurs_at P n s i\<close>: the \<open>n\<close> characters of \<open>s\<close> from position \<open>i\<close> on satisfy \<open>P\<close>.\<close>

definition occurs_at :: "(string \<Rightarrow> bool) \<Rightarrow> nat \<Rightarrow> string \<Rightarrow> nat \<Rightarrow> bool" where
  "occurs_at P n s i = (i + n \<le> length s \<and> P (take n (drop i s)))"

section \<open>The data model of the client\<close>

text \<open>
  The internal table \<^verbatim>\<open>this._devices\<close> is a plain object, \<^verbatim>\<open>{}\<close>. Reading
  \<^verbatim>\<open>this._devices[uuid]\<close> finds a property of the object itself and, for a key it does not
  have, a property of \<^verbatim>\<open>Object.prototype\<close>: one of the built-in methods, the accessor
  \<^verbatim>\<open>__proto__\<close>, which yields \<^verbatim>\<open>Object.prototype\<close> itself, or a property that was written
  onto \<^verbatim>\<open>Object.prototype\<close> since. The handlers read and write six properties of what
  they find there.
\<close>

datatype field = DiscoveryName | FriendlyName | Host | Manufacturer | ModelName | Uuid

fun property_name :: "field \<Rightarrow> string" where
  "property_name DiscoveryName = ''discoveryName''"
| "property_name FriendlyName = ''friendlyName''"
| "property_name Host = ''host''"
| "property_name Manufacturer = ''manufacturer''"
| "property_name ModelName = ''modelName''"
| "property_name Uuid = ''uuid''"

definition properties :: "field list" where
  "properties = [DiscoveryName, FriendlyName, Host, Manufacturer, ModelName, Uuid]"

text \<open>The properties of \<^verbatim>\<open>Object.prototype\<close> that are functions.\<close>

definition Object_prototype_methods :: "string list" where
  "Object_prototype_methods =
     [''constructor'', ''__defineGetter__'', ''__defineSetter__'', ''hasOwnProperty'',
      ''__lookupGetter__'', ''__lookupSetter__'', ''isPrototypeOf'',
      ''propertyIsEnumerable'', ''toString'', ''valueOf'', ''toLocaleString'']"

text \<open>
  An object, by the properties it has itself among the six; a property that an object
  literal of the source leaves out is absent (\<open>None\<close>), and a read of it goes on to
  \<^verbatim>\<open>Object.prototype\<close>. The objects that \<^verbatim>\<open>this._devices[uuid]\<close> can yield: a fragment that
  the client staged under the key, \<^verbatim>\<open>Object.prototype\<close>, and the function that
  \<^verbatim>\<open>Object.prototype\<close> has under the key. What the read yields is such an object or a
  primitive value: \<^verbatim>\<open>undefined\<close>, or a value that was written onto \<^verbatim>\<open>Object.prototype\<close>.
\<close>

type_synonym obj = "field \<rightharpoonup> jsval"

datatype ref = Own string | ObjectPrototype | Builtin string

datatype entry = Object ref | Primitive jsval

text \<open>
  The values of the six properties as a read finds them: the staged fragment of an
  identifier, as \<^verbatim>\<open>_updateDevice\<close> and the guards of the handlers see it.
\<close>

record fragment =
  f_friendlyName :: jsval
  f_host :: jsval
  f_uuid :: jsval
  f_discoveryName :: jsval
  f_manufacturer :: jsval
  f_modelName :: jsval

text \<open>
  An element of the public array \<^verbatim>\<open>this.devices\<close>, with the properties that
  \<^verbatim>\<open>lib/client.js\<close> reads or writes on it. The garbage collector reads \<^verbatim>\<open>last_seen\<close>
  (line 63), the reconciliation writes \<^verbatim>\<open>lastSeen\<close> (line 128): two properties. A
  timestamp is a number of seconds or \<^verbatim>\<open>undefined\<close> (\<open>None\<close>).
\<close>

record device =
  d_uuid :: string
  d_name :: jsval
  d_friendlyName :: jsval
  d_host :: jsval
  d_manufacturer :: jsval
  d_modelName :: jsval
  d_lastSeen :: "int option"
  d_last_seen :: "int option"

text \<open>
  Modelled from the spec: the class \<^verbatim>\<open>Device\<close> (\<^verbatim>\<open>lib/device.js\<close>) is not among the
  sources. The spec's Device Record carries the identifier, discovery-name, friendly-name,
  host, manufacturer, model-name and last-seen it is built from; the constructor is
  taken to store each option it is given under the option's own name. \<^verbatim>\<open>last_seen\<close>
  is not among the options that \<^verbatim>\<open>_updateDevice\<close> passes, so a record starts without it.
  What a tick of the garbage collector does is stated below for records that have their
  time in \<^verbatim>\<open>last_seen\<close> as well as for records as this constructor builds them.
\<close>

definition Device_new ::
  "string \<Rightarrow> jsval \<Rightarrow> jsval \<Rightarrow> jsval \<Rightarrow> jsval \<Rightarrow> jsval \<Rightarrow> int \<Rightarrow> device" where
  "Device_new uuid name friendlyName host manufacturer modelName lastSeen =
     \<lparr> d_uuid = uuid, d_name = name, d_friendlyName = friendlyName, d_host = host,
       d_manufacturer = manufacturer, d_modelName = modelName,
       d_lastSeen = Some lastSeen, d_last_seen = None \<rparr>"

text \<open>What the client does to the outside: the events it emits, each with the device
  record as it is at that moment, and the calls of \<^verbatim>\<open>device.close()\<close>.\<close>

datatype effect = Emit string device | Close device

text \<open>
  The options object, by the keys the constructor reads, and the key
  \<^verbatim>\<open>mdns_host_strategy\<close>, which a caller may set and no line of the source reads. The
  numeric options are numbers or absent.
\<close>

record options =
  opt_mdns_host_stategy :: jsval
  opt_mdns_host_strategy :: jsval
  opt_gc_interval :: "int option"
  opt_gc_threshold :: "int option"

text \<open>
  The state: the properties that \<^verbatim>\<open>this._devices\<close> has itself, the properties among the
  six that \<^verbatim>\<open>Object.prototype\<close> and its functions have got, the public array, the host
  strategy, and what was emitted so far. \<^verbatim>\<open>Object.prototype\<close> and its functions belong to
  the process, not to the client.
\<close>

record client =
  own_devices :: "string \<rightharpoonup> obj"
  object_prototype :: obj
  builtins :: "string \<Rightarrow> obj"
  devices :: "device list"
  mdns_host_stategy :: string
  effects :: "effect list"

text \<open>What can leave a callback: a \<^verbatim>\<open>TypeError\<close>, from reading or setting a property of
  \<^verbatim>\<open>undefined\<close> or \<^verbatim>\<open>null\<close>, and from setting a property of a string (the body of a class
  is strict code).\<close>

datatype error = TypeError

text \<open>The constructor: empty tables, and
  \<^verbatim>\<open>this._mdns_host_stategy = options.mdns_host_stategy || 'rinfo'\<close>. The process is one in
  which nothing was written onto \<^verbatim>\<open>Object.prototype\<close> or its functions.\<close>

definition Client_new :: "options \<Rightarrow> client" where
  "Client_new opts =
     \<lparr> own_devices = Map.empty,
       object_prototype = Map.empty,
       builtins = (\<lambda>k. Map.empty),
       devices = [],
       mdns_host_stategy =
         (case js_or (opt_mdns_host_stategy opts) (Str ''rinfo'') of
            Str s \<Rightarrow> s | _ \<Rightarrow> ''rinfo''),
       effects = [] \<rparr>"

section \<open>Reading and writing the internal table\<close>

text \<open>A property that \<^verbatim>\<open>Object.prototype\<close> has got, \<^verbatim>\<open>undefined\<close> when it has not.\<close>

definition inherited :: "client \<Rightarrow> field \<Rightarrow> jsval" where
  "inherited c p = (case object_prototype c p of Some v \<Rightarrow> v | None \<Rightarrow> Undefined)"

text \<open>\<^verbatim>\<open>this._devices[uuid]\<close>: the property of the table itself, else the one of
  \<^verbatim>\<open>Object.prototype\<close>.\<close>

definition entry_of :: "client \<Rightarrow> string \<Rightarrow> entry" where
  "entry_of c uuid =
     (case own_devices c uuid of
        Some ob \<Rightarrow> Object (Own uuid)
      | None \<Rightarrow>
          if uuid = ''__proto__'' then Object ObjectPrototype
          else if uuid \<in> set Object_prototype_methods then Object (Builtin uuid)
          else (case find (\<lambda>p. property_name p = uuid) properties of
                  Some p \<Rightarrow> Primitive (inherited c p)
                | None \<Rightarrow> Primitive Undefined))"

text \<open>The truth value of \<^verbatim>\<open>this._devices[uuid]\<close>.\<close>

fun truthy_entry :: "entry \<Rightarrow> bool" where
  "truthy_entry (Object r) = True"
| "truthy_entry (Primitive v) = truthy v"

text \<open>The properties an object has itself, and a read of one of its properties: its own,
  else the one of \<^verbatim>\<open>Object.prototype\<close>.\<close>

definition own_props :: "client \<Rightarrow> ref \<Rightarrow> obj" where
  "own_props c r =
     (case r of
        Own k \<Rightarrow> (case own_devices c k of Some ob \<Rightarrow> ob | None \<Rightarrow> Map.empty)
      | ObjectPrototype \<Rightarrow> object_prototype c
      | Builtin k \<Rightarrow> builtins c k)"

definition read_prop :: "client \<Rightarrow> ref \<Rightarrow> field \<Rightarrow> jsval" where
  "read_prop c r p = (case own_props c r p of Some v \<Rightarrow> v | None \<Rightarrow> inherited c p)"

definition fragment_of :: "(field \<Rightarrow> jsval) \<Rightarrow> fragment" where
  "fragment_of g =
     \<lparr> f_friendlyName = g FriendlyName, f_host = g Host, f_uuid = g Uuid,
       f_discoveryName = g DiscoveryName, f_manufacturer = g Manufacturer,
       f_modelName = g ModelName \<rparr>"

text \<open>
  What the properties of \<^verbatim>\<open>this._devices[uuid]\<close> read as: those of the object found, those
  of \<^verbatim>\<open>Object.prototype\<close> when a string is found, and nothing when \<^verbatim>\<open>undefined\<close> or \<^verbatim>\<open>null\<close>
  is found, where reading a property throws.
\<close>

definition internal_devices :: "client \<Rightarrow> string \<Rightarrow> fragment option" where
  "internal_devices c uuid =
     (case entry_of c uuid of
        Object r \<Rightarrow> Some (fragment_of (read_prop c r))
      | Primitive (Str s) \<Rightarrow> Some (fragment_of (inherited c))
      | Primitive Null \<Rightarrow> None
      | Primitive Undefined \<Rightarrow> None)"

text \<open>Setting a property of an object makes it a property of the object itself.\<close>

definition write_prop :: "ref \<Rightarrow> field \<Rightarrow> jsval \<Rightarrow> client \<Rightarrow> client" where
  "write_prop r p v c =
     (case r of
        Own k \<Rightarrow> c\<lparr> own_devices := (own_devices c)(k \<mapsto> (own_props c r)(p \<mapsto> v)) \<rparr>
      | ObjectPrototype \<Rightarrow> c\<lparr> object_prototype := (object_prototype c)(p \<mapsto> v) \<rparr>
      | Builtin k \<Rightarrow> c\<lparr> builtins := (builtins c)(k := (builtins c k)(p \<mapsto> v)) \<rparr>)"

text \<open>\<^verbatim>\<open>this._devices[uuid].p = v\<close>, and the same under a condition. Setting a property of
  a primitive value throws.\<close>

definition assign :: "string \<Rightarrow> field \<Rightarrow> jsval \<Rightarrow> client \<Rightarrow> error + client" where
  "assign uuid p v c =
     (case entry_of c uuid of
        Object r \<Rightarrow> Inr (write_prop r p v c)
      | Primitive x \<Rightarrow> Inl TypeError)"

definition assign_if :: "bool \<Rightarrow> string \<Rightarrow> field \<Rightarrow> jsval \<Rightarrow> client \<Rightarrow> error + client" where
  "assign_if b uuid p v c = (if b then assign uuid p v c else Inr c)"

text \<open>One statement after another: an exception ends the sequence.\<close>

definition and_then :: "error + 'a \<Rightarrow> ('a \<Rightarrow> error + 'b) \<Rightarrow> error + 'b" where
  "and_then r f = (case r of Inl e \<Rightarrow> Inl e | Inr x \<Rightarrow> f x)"

section \<open>Reconciliation: \<^verbatim>\<open>_updateDevice\<close>\<close>

text \<open>The device that \<^verbatim>\<open>find\<close> returned is an element of the array, changed in place:
  the first element with the identifier.\<close>

fun replace_first :: "('a \<Rightarrow> bool) \<Rightarrow> 'a \<Rightarrow> 'a list \<Rightarrow> 'a list" where
  "replace_first p y [] = []"
| "replace_first p y (x # xs) = (if p x then y # xs else x # replace_first p y xs)"

definition emit_if :: "bool \<Rightarrow> string \<Rightarrow> device \<Rightarrow> effect list" where
  "emit_if b name d = (if b then [Emit name d] else [])"

text \<open>\<open>lastSeen\<close> is the clock's reading \<^verbatim>\<open>Math.floor(Date.now() / 1000)\<close>. Without a
  staged fragment \<^verbatim>\<open>device\<close> is undefined and reading its property throws.\<close>

definition updateDevice :: "int \<Rightarrow> string \<Rightarrow> client \<Rightarrow> error + client" where
  "updateDevice lastSeen uuid c =
     (case internal_devices c uuid of
        None \<Rightarrow> Inl TypeError
      | Some device \<Rightarrow>
          (case find (\<lambda>v. d_uuid v = uuid) (devices c) of
             Some oDevice \<Rightarrow>
               let changed =
                     (js_neq (f_discoveryName device) (d_name oDevice) \<or>
                      js_neq (f_friendlyName device) (d_friendlyName oDevice) \<or>
                      js_neq (f_host device) (d_host oDevice) \<or>
                      js_neq (f_manufacturer device) (d_manufacturer oDevice) \<or>
                      js_neq (f_modelName device) (d_modelName oDevice));
                   emitUpdatedEvent = changed;
                   emitEvent = changed;
                   emitOnlineEvent = False;
                   oDevice' = oDevice\<lparr> d_name := f_discoveryName device,
                                         d_friendlyName := f_friendlyName device,
                                         d_host := f_host device,
                                         d_manufacturer := f_manufacturer device,
                                         d_modelName := f_modelName device,
                                         d_lastSeen := Some lastSeen \<rparr>
               in Inr (c\<lparr> devices := replace_first (\<lambda>v. d_uuid v = uuid) oDevice' (devices c),
                           effects := effects c @
                             emit_if emitEvent ''device'' oDevice' @
                             emit_if emitOnlineEvent ''device_online'' oDevice' @
                             emit_if emitUpdatedEvent ''device_updated'' oDevice' \<rparr>)
           | None \<Rightarrow>
               let emitEvent = True;
                   emitOnlineEvent = True;
                   emitUpdatedEvent = False;
                   oDevice = Device_new uuid (f_discoveryName device) (f_friendlyName device)
                               (f_host device) (f_manufacturer device) (f_modelName device)
                               lastSeen
               in Inr (c\<lparr> devices := devices c @ [oDevice],
                           effects := effects c @
                             emit_if emitEvent ''device'' oDevice @
                             emit_if emitOnlineEvent ''device_online'' oDevice @
                             emit_if emitUpdatedEvent ''device_updated'' oDevice \<rparr>)))"

section \<open>The mDNS collector: \<^verbatim>\<open>onEachAnswer\<close>\<close>

text \<open>
  A decoded answer record. The transport and \<^verbatim>\<open>dns-txt\<close> are outside the sources: a TXT
  record comes with the objects that \<^verbatim>\<open>txt.decode\<close> returns for its data, one for each
  chunk when the data is an array. \<open>SRV name target\<close> carries \<^verbatim>\<open>a.data.target\<close>. Records
  of any other type fall through the \<^verbatim>\<open>switch\<close>.
\<close>

datatype txt_data = TxtArray "(string \<rightharpoonup> jsval) list" | TxtSingle "string \<rightharpoonup> jsval"

datatype answer =
    PTR string string
  | SRV string jsval
  | TXT string txt_data
  | OtherRecord

text \<open>Reading a property of a decoded object: \<^verbatim>\<open>undefined\<close> when it is absent.\<close>

definition get_prop :: "(string \<rightharpoonup> jsval) \<Rightarrow> string \<Rightarrow> jsval" where
  "get_prop obj k = (case obj k of None \<Rightarrow> Undefined | Some v \<Rightarrow> v)"

text \<open>The keys of each chunk are copied in turn, a later chunk over an earlier one.\<close>

fun decodedData :: "txt_data \<Rightarrow> (string \<rightharpoonup> jsval)" where
  "decodedData (TxtArray items) = foldl (\<lambda>acc item. acc ++ item) Map.empty items"
| "decodedData (TxtSingle item) = item"

text \<open>\<^verbatim>\<open>if (this._devices[uuid].host && this._devices[uuid].friendlyName)\<close>
  \<^verbatim>\<open>this._updateDevice(uuid)\<close>.\<close>

definition announce :: "int \<Rightarrow> string \<Rightarrow> client \<Rightarrow> error + client" where
  "announce now uuid c =
     (case internal_devices c uuid of
        None \<Rightarrow> Inl TypeError
      | Some f \<Rightarrow>
          if truthy (f_host f) \<and> truthy (f_friendlyName f) then updateDevice now uuid c
          else Inr c)"

text \<open>
  The \<^verbatim>\<open>switch\<close> of lines 201 to 294. The object literal of line 210 has the properties
  \<^verbatim>\<open>friendlyName\<close>, \<^verbatim>\<open>host\<close>, \<^verbatim>\<open>uuid\<close> and \<^verbatim>\<open>discoveryName\<close>. The condition
  \<^verbatim>\<open>modelName && !this._devices[uuid].modelName\<close> reads the model name after the two
  assignments before it.
\<close>

definition onEachAnswer :: "int \<Rightarrow> string \<Rightarrow> answer \<Rightarrow> client \<Rightarrow> error + client" where
  "onEachAnswer now host a c =
     (case a of
        PTR name data \<Rightarrow>
          if name = ''_googlecast._tcp.local'' then
            let uuid = parseUUID data; discoveryName = Str data in
            if \<not> truthy_entry (entry_of c uuid) then
              Inr (c\<lparr> own_devices := (own_devices c)(uuid \<mapsto>
                    [FriendlyName \<mapsto> Null, Host \<mapsto> Null, Uuid \<mapsto> Str uuid,
                     DiscoveryName \<mapsto> discoveryName]) \<rparr>)
            else
              and_then (assign_if (truthy discoveryName) uuid DiscoveryName discoveryName c)
                (announce now uuid)
          else Inr c
      | SRV name target \<Rightarrow>
          let uuid = parseUUID name; discoveryName = Str name in
          if truthy_entry (entry_of c uuid) then
            and_then (assign uuid Host
                        (if toLowerCase (mdns_host_stategy c) = ''srv'' then target
                         else Str host) c)
              (\<lambda>c1. and_then (assign_if (truthy discoveryName) uuid DiscoveryName discoveryName c1)
                 (announce now uuid))
          else Inr c
      | TXT name data \<Rightarrow>
          let uuid = parseUUID name; discoveryName = Str name in
          if truthy_entry (entry_of c uuid) then
            let decoded = decodedData data;
                friendlyName = js_or (get_prop decoded ''fn'') (get_prop decoded ''n'');
                modelName = get_prop decoded ''d''
            in
            and_then (assign_if (truthy discoveryName) uuid DiscoveryName discoveryName c)
              (\<lambda>c1. and_then (assign_if (truthy friendlyName) uuid FriendlyName friendlyName c1)
                 (\<lambda>c2. (case internal_devices c2 uuid of
                           None \<Rightarrow> Inl TypeError
                         | Some f \<Rightarrow>
                             and_then
                               (assign_if (truthy modelName \<and> \<not> truthy (f_modelName f))
                                  uuid ModelName modelName c2)
                               (announce now uuid))))
          else Inr c
      | OtherRecord \<Rightarrow> Inr c)"

text \<open>\<^verbatim>\<open>forEach\<close> over an array that the callback does not change; an exception ends it.\<close>

fun forEach :: "('a \<Rightarrow> 's \<Rightarrow> error + 's) \<Rightarrow> 'a list \<Rightarrow> 's \<Rightarrow> error + 's" where
  "forEach f [] s = Inr s"
| "forEach f (x # xs) s = (case f x s of Inl e \<Rightarrow> Inl e | Inr s' \<Rightarrow> forEach f xs s')"

record mdns_response =
  answers :: "answer list"
  additionals :: "answer list"
  rinfo_address :: string

definition on_mdns_response :: "int \<Rightarrow> mdns_response \<Rightarrow> client \<Rightarrow> error + client" where
  "on_mdns_response now response c =
     (case forEach (onEachAnswer now (rinfo_address response)) (answers response) c of
        Inl e \<Rightarrow> Inl e
      | Inr c' \<Rightarrow> forEach (onEachAnswer now (rinfo_address response)) (additionals response) c')"

section \<open>The SSDP collector\<close>

definition SSDP_DEVICE_TYPE :: string where
  "SSDP_DEVICE_TYPE = ''urn:dial-multiscreen-org:device:dial:1''"

text \<open>
  \<^verbatim>\<open>result.device\<close> of the parsed description document, by what reading each of its
  properties yields. The HTTP request and the XML parser are outside the sources: a
  response comes with what they deliver. That is a request that fails (refused, timed
  out, aborted: \<^verbatim>\<open>http.get\<close> is given a \<^verbatim>\<open>signal\<close>, which puts a listener for \<^verbatim>\<open>error\<close> on the
  request, so the failure is dropped), a response stream that fails, a parse error, or the
  parsed document, whose \<^verbatim>\<open>device\<close> may be missing.
\<close>

record ssdp_device =
  x_deviceType :: jsval
  x_friendlyName :: jsval
  x_manufacturer :: jsval
  x_modelName :: jsval
  x_UDN :: jsval

datatype fetched = RequestError | ResponseError | XmlError | Parsed "ssdp_device option"

record ssdp_response =
  headers_LOCATION :: jsval
  statusCode :: int
  ssdp_address :: string
  description :: fetched

text \<open>The generated name:
  \<^verbatim>\<open>`Chromecast-${udn.replace(/uuid:/g, '').replace(/-/g, '')}._googlecast._tcp.local`\<close>.\<close>

definition synthesized_name :: "string \<Rightarrow> string" where
  "synthesized_name udn =
     ''Chromecast-'' @ strip_hyphens (strip_uuid_prefix udn) @ ''._googlecast._tcp.local''"

text \<open>The name is built from \<^verbatim>\<open>udn\<close> (line 361) before \<^verbatim>\<open>if (!udn) return\<close> (line 364):
  a document without a UDN throws on \<^verbatim>\<open>udn.replace\<close>. The object literal of line 372
  has the five properties it lists, \<^verbatim>\<open>manufacturer\<close> and \<^verbatim>\<open>modelName\<close> also when their value
  is \<^verbatim>\<open>undefined\<close>.\<close>

definition on_ssdp_response :: "int \<Rightarrow> ssdp_response \<Rightarrow> client \<Rightarrow> error + client" where
  "on_ssdp_response now r c =
     (if statusCode r \<noteq> 200 \<or> \<not> truthy (headers_LOCATION r) then Inr c
      else
        (case description r of
           RequestError \<Rightarrow> Inr c
         | ResponseError \<Rightarrow> Inr c
         | XmlError \<Rightarrow> Inr c
         | Parsed None \<Rightarrow> Inr c
         | Parsed (Some dev) \<Rightarrow>
             if js_neq (x_deviceType dev) (Str SSDP_DEVICE_TYPE) \<or> \<not> truthy (x_friendlyName dev)
             then Inr c
             else
               let host = Str (ssdp_address r);
                   manufacturer = x_manufacturer dev;
                   modelName = x_modelName dev;
                   friendlyName = x_friendlyName dev
               in
               (case x_UDN dev of
                  Str udn \<Rightarrow>
                    let discoveryName = Str (synthesized_name udn) in
                    if \<not> truthy friendlyName then Inr c
                    else if \<not> truthy (Str udn) then Inr c
                    else
                      let uuid = parseUUID (strip_hyphens (strip_uuid_prefix udn)) in
                      if \<not> truthy_entry (entry_of c uuid) then
                        updateDevice now uuid
                          (c\<lparr> own_devices := (own_devices c)(uuid \<mapsto>
                                [DiscoveryName \<mapsto> discoveryName, FriendlyName \<mapsto> friendlyName,
                                 Host \<mapsto> host, Manufacturer \<mapsto> manufacturer,
                                 ModelName \<mapsto> modelName]) \<rparr>)
                      else
                        (case internal_devices c uuid of
                           None \<Rightarrow> Inl TypeError
                         | Some f \<Rightarrow>
                             and_then
                               (assign_if (truthy discoveryName \<and> \<not> truthy (f_discoveryName f))
                                  uuid DiscoveryName discoveryName c)
                               (\<lambda>c1. and_then
                                  (assign_if (truthy friendlyName) uuid FriendlyName friendlyName c1)
                                  (\<lambda>c2. and_then (assign_if (truthy host) uuid Host host c2)
                                     (\<lambda>c3. and_then
                                        (assign_if (truthy manufacturer) uuid Manufacturer
                                           manufacturer c3)
                                        (\<lambda>c4. and_then
                                           (assign_if (truthy modelName) uuid ModelName
                                              modelName c4)
                                           (updateDevice now uuid))))))
                | _ \<Rightarrow> Inl TypeError)))"

section \<open>The garbage collector\<close>

text \<open>
  The callback of \<^verbatim>\<open>this.devices.forEach\<close> at one index. \<^verbatim>\<open>if (lastSeen)\<close> is false for
  \<^verbatim>\<open>undefined\<close> and for 0. An exception of \<^verbatim>\<open>device.close()\<close> is caught, so the call is
  recorded and the rest runs either way. The table entry that goes is the one under
  \<^verbatim>\<open>device.name\<close>, when the table itself has it: \<^verbatim>\<open>delete\<close> leaves \<^verbatim>\<open>Object.prototype\<close>
  alone. The loop below calls it for an index of the array only.
\<close>

definition gc_visit :: "int \<Rightarrow> int \<Rightarrow> nat \<Rightarrow> client \<Rightarrow> client" where
  "gc_visit now gc_threshold index c =
     (let device = devices c ! index in
      case d_last_seen device of
        None \<Rightarrow> c
      | Some lastSeen \<Rightarrow>
          if lastSeen \<noteq> 0 \<and> now - lastSeen > gc_threshold then
            c\<lparr> own_devices := (own_devices c)(key_of (d_name device) := None),
               devices := take index (devices c) @ drop (Suc index) (devices c),
               effects := effects c @ [Close device, Emit ''device_offline'' device] \<rparr>
          else c)"

text \<open>
  \<^verbatim>\<open>Array.prototype.forEach\<close> on an array that its callback may shorten: the length is
  read once, the index runs from 0 up to it, and the callback is called for the indices
  that are still in the array when their turn comes. \<open>forEach_live n k\<close> is the rest of
  the loop at index \<open>k\<close> with \<open>n\<close> indices to go.
\<close>

primrec forEach_live :: "nat \<Rightarrow> nat \<Rightarrow> (nat \<Rightarrow> client \<Rightarrow> client) \<Rightarrow> client \<Rightarrow> client" where
  "forEach_live 0 k callback c = c"
| "forEach_live (Suc n) k callback c =
     forEach_live n (Suc k) callback
       (if k < length (devices c) then callback k c else c)"

text \<open>One tick of the timer, which exists when
  \<^verbatim>\<open>options.gc_interval > 0 && options.gc_threshold > 0\<close>.\<close>

definition gc_enabled :: "options \<Rightarrow> bool" where
  "gc_enabled opts =
     (case (opt_gc_interval opts, opt_gc_threshold opts) of
        (Some i, Some t) \<Rightarrow> i > 0 \<and> t > 0
      | _ \<Rightarrow> False)"

definition gc_tick :: "options \<Rightarrow> int \<Rightarrow> client \<Rightarrow> client" where
  "gc_tick opts now c =
     (case opt_gc_threshold opts of
        Some t \<Rightarrow>
          if gc_enabled opts
          then forEach_live (length (devices c)) 0 (gc_visit now t) c
          else c
      | None \<Rightarrow> c)"

section \<open>The client as a machine\<close>

text \<open>
  The three callbacks run one at a time on the event loop. An input is one callback with
  the clock's reading in seconds during it; an exception that leaves a callback ends the
  run.
\<close>

datatype input =
    Mdns int mdns_response
  | Ssdp int ssdp_response
  | GcTick int

fun step :: "options \<Rightarrow> input \<Rightarrow> client \<Rightarrow> error + client" where
  "step opts (Mdns now response) c = on_mdns_response now response c"
| "step opts (Ssdp now r) c = on_ssdp_response now r c"
| "step opts (GcTick now) c = Inr (gc_tick opts now c)"

fun run :: "options \<Rightarrow> input list \<Rightarrow> client \<Rightarrow> error + client" where
  "run opts [] c = Inr c"
| "run opts (i # is) c = (case step opts i c of Inl e \<Rightarrow> Inl e | Inr c' \<Rightarrow> run opts is c')"

section \<open>Notions the claims speak of\<close>

text \<open>The record of an identifier in the public registry: the one \<^verbatim>\<open>find\<close> returns.\<close>

definition lookup :: "client \<Rightarrow> string \<Rightarrow> device option" where
  "lookup c uuid = find (\<lambda>v. d_uuid v = uuid) (devices c)"

text \<open>Some compared field of a fragment differs from the record, in the sense of \<^verbatim>\<open>!=\<close>.\<close>

definition differs :: "fragment \<Rightarrow> device \<Rightarrow> bool" where
  "differs f old =
     (js_neq (f_discoveryName f) (d_name old) \<or>
      js_neq (f_friendlyName f) (d_friendlyName old) \<or>
      js_neq (f_host f) (d_host old) \<or>
      js_neq (f_manufacturer f) (d_manufacturer old) \<or>
      js_neq (f_modelName f) (d_modelName old))"

text \<open>A record carries the values of a fragment.\<close>

definition carries :: "device \<Rightarrow> fragment \<Rightarrow> bool" where
  "carries d f =
     (d_name d = f_discoveryName f \<and> d_friendlyName d = f_friendlyName f \<and>
      d_host d = f_host f \<and> d_manufacturer d = f_manufacturer f \<and>
      d_modelName d = f_modelName f)"

text \<open>Two records are equal in every field but \<^verbatim>\<open>lastSeen\<close>, values compared as
  \<^verbatim>\<open>==\<close> compares them.\<close>

definition same_but_lastSeen :: "device \<Rightarrow> device \<Rightarrow> bool" where
  "same_but_lastSeen d old =
     (d_uuid d = d_uuid old \<and> \<not> js_neq (d_name d) (d_name old) \<and>
      \<not> js_neq (d_friendlyName d) (d_friendlyName old) \<and> \<not> js_neq (d_host d) (d_host old) \<and>
      \<not> js_neq (d_manufacturer d) (d_manufacturer old) \<and>
      \<not> js_neq (d_modelName d) (d_modelName old) \<and> d_last_seen d = d_last_seen old)"

text \<open>No compared field of the record is \<^verbatim>\<open>null\<close>.\<close>

definition null_free :: "device \<Rightarrow> bool" where
  "null_free d =
     (d_name d \<noteq> Null \<and> d_friendlyName d \<noteq> Null \<and> d_host d \<noteq> Null \<and>
      d_manufacturer d \<noteq> Null \<and> d_modelName d \<noteq> Null)"

text \<open>The registry holds at most one record for an identifier.\<close>

definition unique_uuids :: "client \<Rightarrow> bool" where
  "unique_uuids c = distinct (map d_uuid (devices c))"

text \<open>What \<^verbatim>\<open>_updateDevice\<close> makes of a fragment: the record it constructs for an unknown
  identifier, and the record it finds after the assignments of lines 123 to 128.\<close>

definition created :: "string \<Rightarrow> fragment \<Rightarrow> int \<Rightarrow> device" where
  "created uuid f now =
     Device_new uuid (f_discoveryName f) (f_friendlyName f) (f_host f) (f_manufacturer f)
       (f_modelName f) now"

definition overwrite :: "fragment \<Rightarrow> int \<Rightarrow> device \<Rightarrow> device" where
  "overwrite f now old =
     old\<lparr> d_name := f_discoveryName f, d_friendlyName := f_friendlyName f,
          d_host := f_host f, d_manufacturer := f_manufacturer f,
          d_modelName := f_modelName f, d_lastSeen := Some now \<rparr>"

subsection \<open>The collectors, read as functions on one fragment\<close>


text \<open>The host an SRV record gives under a strategy: the \<^verbatim>\<open>switch\<close> of lines 237 to 245.\<close>

definition srv_host :: "string \<Rightarrow> string \<Rightarrow> jsval \<Rightarrow> jsval" where
  "srv_host strategy host target =
     (if toLowerCase strategy = ''srv'' then target else Str host)"


definition stage :: "string \<Rightarrow> obj \<Rightarrow> client \<Rightarrow> client" where
  "stage uuid ob c = c\<lparr> own_devices := (own_devices c)(uuid \<mapsto> ob) \<rparr>"

text \<open>The assignments of an answer record to the object that the table yields;
  \<open>strategy\<close> is \<^verbatim>\<open>this._mdns_host_stategy\<close> and \<open>host\<close> is \<^verbatim>\<open>rinfo.address\<close>.\<close>

definition write_if :: "bool \<Rightarrow> ref \<Rightarrow> field \<Rightarrow> jsval \<Rightarrow> client \<Rightarrow> client" where
  "write_if b r p v c = (if b then write_prop r p v c else c)"

fun write_answer :: "ref \<Rightarrow> string \<Rightarrow> string \<Rightarrow> answer \<Rightarrow> client \<Rightarrow> client" where
  "write_answer r strategy host (PTR name data) c =
     write_if (truthy (Str data)) r DiscoveryName (Str data) c"
| "write_answer r strategy host (SRV name target) c =
     write_if (truthy (Str name)) r DiscoveryName (Str name)
       (write_prop r Host (srv_host strategy host target) c)"
| "write_answer r strategy host (TXT name data) c =
     (let friendlyName = js_or (get_prop (decodedData data) ''fn'') (get_prop (decodedData data) ''n'');
          modelName = get_prop (decodedData data) ''d'';
          c2 = write_if (truthy friendlyName) r FriendlyName friendlyName
                 (write_if (truthy (Str name)) r DiscoveryName (Str name) c)
      in write_if (truthy modelName \<and> \<not> truthy (read_prop c2 r ModelName)) r ModelName
           modelName c2)"
| "write_answer r strategy host OtherRecord c = c"

text \<open>Setting one property, on the values that the properties read as.\<close>

fun put_field :: "field \<Rightarrow> jsval \<Rightarrow> fragment \<Rightarrow> fragment" where
  "put_field DiscoveryName v f = f\<lparr> f_discoveryName := v \<rparr>"
| "put_field FriendlyName v f = f\<lparr> f_friendlyName := v \<rparr>"
| "put_field Host v f = f\<lparr> f_host := v \<rparr>"
| "put_field Manufacturer v f = f\<lparr> f_manufacturer := v \<rparr>"
| "put_field ModelName v f = f\<lparr> f_modelName := v \<rparr>"
| "put_field Uuid v f = f\<lparr> f_uuid := v \<rparr>"

text \<open>The object of a reference is there: a staged fragment is one that the table has.\<close>

definition live :: "client \<Rightarrow> ref \<Rightarrow> bool" where
  "live c r =
     (case r of Own k \<Rightarrow> own_devices c k \<noteq> None | ObjectPrototype \<Rightarrow> True | Builtin k \<Rightarrow> True)"

text \<open>Two states read alike: every key of the table yields the same, and every property
  of every object reads the same.\<close>

definition same_reads :: "client \<Rightarrow> client \<Rightarrow> bool" where
  "same_reads c c' =
     (entry_of c' = entry_of c \<and> read_prop c' = read_prop c \<and> inherited c' = inherited c \<and>
      mdns_host_stategy c' = mdns_host_stategy c)"

text \<open>The assignments of an answer record, on the values that the properties read as.\<close>

definition set_discoveryName :: "jsval \<Rightarrow> fragment \<Rightarrow> fragment" where
  "set_discoveryName discoveryName f =
     (if truthy discoveryName then f\<lparr> f_discoveryName := discoveryName \<rparr> else f)"

fun absorb_answer :: "string \<Rightarrow> string \<Rightarrow> answer \<Rightarrow> fragment \<Rightarrow> fragment" where
  "absorb_answer strategy host (PTR name data) f = set_discoveryName (Str data) f"
| "absorb_answer strategy host (SRV name target) f =
     set_discoveryName (Str name) (f\<lparr> f_host := srv_host strategy host target \<rparr>)"
| "absorb_answer strategy host (TXT name data) f =
     (let friendlyName = js_or (get_prop (decodedData data) ''fn'') (get_prop (decodedData data) ''n'');
          modelName = get_prop (decodedData data) ''d'';
          f1 = set_discoveryName (Str name) f;
          f2 = (if truthy friendlyName then f1\<lparr> f_friendlyName := friendlyName \<rparr> else f1)
      in if truthy modelName \<and> \<not> truthy (f_modelName f2)
         then f2\<lparr> f_modelName := modelName \<rparr> else f2)"
| "absorb_answer strategy host OtherRecord f = f"

text \<open>An SSDP response that reaches the table: the description document and its UDN.\<close>

definition ssdp_doc :: "ssdp_response \<Rightarrow> (ssdp_device \<times> string) option" where
  "ssdp_doc r =
     (if statusCode r \<noteq> 200 \<or> \<not> truthy (headers_LOCATION r) then None
      else
        (case description r of
           Parsed (Some dev) \<Rightarrow>
             if js_neq (x_deviceType dev) (Str SSDP_DEVICE_TYPE) \<or> \<not> truthy (x_friendlyName dev)
             then None
             else (case x_UDN dev of
                     Str udn \<Rightarrow> if udn = [] then None else Some (dev, udn)
                   | _ \<Rightarrow> None)
         | _ \<Rightarrow> None))"

definition ssdp_uuid :: "string \<Rightarrow> string" where
  "ssdp_uuid udn = parseUUID (strip_hyphens (strip_uuid_prefix udn))"


definition write_ssdp :: "ref \<Rightarrow> string \<Rightarrow> ssdp_device \<Rightarrow> string \<Rightarrow> client \<Rightarrow> client" where
  "write_ssdp r address dev udn c =
     write_if (truthy (x_modelName dev)) r ModelName (x_modelName dev)
       (write_if (truthy (x_manufacturer dev)) r Manufacturer (x_manufacturer dev)
          (write_if (truthy (Str address)) r Host (Str address)
             (write_if (truthy (x_friendlyName dev)) r FriendlyName (x_friendlyName dev)
                (write_if (\<not> truthy (read_prop c r DiscoveryName)) r DiscoveryName
                   (Str (synthesized_name udn)) c))))"

definition absorb_ssdp :: "string \<Rightarrow> ssdp_device \<Rightarrow> string \<Rightarrow> fragment \<Rightarrow> fragment" where
  "absorb_ssdp address dev udn f =
     (let f1 = (if truthy (Str (synthesized_name udn)) \<and> \<not> truthy (f_discoveryName f)
                then f\<lparr> f_discoveryName := Str (synthesized_name udn) \<rparr> else f);
          f2 = (if truthy (x_friendlyName dev)
                then f1\<lparr> f_friendlyName := x_friendlyName dev \<rparr> else f1);
          f3 = (if truthy (Str address) then f2\<lparr> f_host := Str address \<rparr> else f2);
          f4 = (if truthy (x_manufacturer dev)
                then f3\<lparr> f_manufacturer := x_manufacturer dev \<rparr> else f3)
      in if truthy (x_modelName dev) then f4\<lparr> f_modelName := x_modelName dev \<rparr> else f4)"

text \<open>The name an answer record gives the instance: the variable \<^verbatim>\<open>discoveryName\<close> of
  \<^verbatim>\<open>onEachAnswer\<close>.\<close>

fun answer_name :: "answer \<Rightarrow> string" where
  "answer_name (PTR name data) = data"
| "answer_name (SRV name target) = name"
| "answer_name (TXT name data) = name"
| "answer_name OtherRecord = []"

text \<open>Inputs by their source.\<close>

fun is_mdns :: "input \<Rightarrow> bool" where
  "is_mdns (Mdns now response) = True"
| "is_mdns (Ssdp now r) = False"
| "is_mdns (GcTick now) = False"

fun is_ssdp :: "input \<Rightarrow> bool" where
  "is_ssdp (Mdns now response) = False"
| "is_ssdp (Ssdp now r) = True"
| "is_ssdp (GcTick now) = False"

fun is_gc :: "input \<Rightarrow> bool" where
  "is_gc (Mdns now response) = False"
| "is_gc (Ssdp now r) = False"
| "is_gc (GcTick now) = True"

subsection \<open>What the inputs let the client observe\<close>

text \<open>An answer record from the responder \<open>host\<close> carries a host, or a friendly name, for
  the identifier \<open>u\<close>: a value that is a non-empty string.\<close>

fun answer_offers_host :: "string \<Rightarrow> string \<Rightarrow> answer \<Rightarrow> string \<Rightarrow> bool" where
  "answer_offers_host strategy host (SRV name target) u =
     (parseUUID name = u \<and> truthy (srv_host strategy host target))"
| "answer_offers_host strategy host (PTR name data) u = False"
| "answer_offers_host strategy host (TXT name data) u = False"
| "answer_offers_host strategy host OtherRecord u = False"

fun answer_offers_friendlyName :: "answer \<Rightarrow> string \<Rightarrow> bool" where
  "answer_offers_friendlyName (TXT name data) u =
     (parseUUID name = u \<and>
      truthy (js_or (get_prop (decodedData data) ''fn'') (get_prop (decodedData data) ''n'')))"
| "answer_offers_friendlyName (PTR name data) u = False"
| "answer_offers_friendlyName (SRV name target) u = False"
| "answer_offers_friendlyName OtherRecord u = False"

text \<open>The same for an input: an mDNS response through one of its records, an SSDP
  response that reaches the table through its responder address and its description.\<close>

fun offers_host :: "string \<Rightarrow> input \<Rightarrow> string \<Rightarrow> bool" where
  "offers_host strategy (Mdns now response) u =
     list_ex (\<lambda>a. answer_offers_host strategy (rinfo_address response) a u)
       (answers response @ additionals response)"
| "offers_host strategy (Ssdp now r) u =
     (case ssdp_doc r of
        Some (dev, udn) \<Rightarrow> ssdp_uuid udn = u \<and> ssdp_address r \<noteq> []
      | None \<Rightarrow> False)"
| "offers_host strategy (GcTick now) u = False"

fun offers_friendlyName :: "input \<Rightarrow> string \<Rightarrow> bool" where
  "offers_friendlyName (Mdns now response) u =
     list_ex (\<lambda>a. answer_offers_friendlyName a u) (answers response @ additionals response)"
| "offers_friendlyName (Ssdp now r) u =
     (case ssdp_doc r of
        Some (dev, udn) \<Rightarrow> ssdp_uuid udn = u \<and> truthy (x_friendlyName dev)
      | None \<Rightarrow> False)"
| "offers_friendlyName (GcTick now) u = False"

subsection \<open>Re-delivery\<close>

text \<open>A record after a reconciliation that changed nothing but \<^verbatim>\<open>lastSeen\<close>.\<close>

definition refreshed :: "device \<Rightarrow> device \<Rightarrow> bool" where
  "refreshed d' d = (d' = d\<lparr> d_lastSeen := d_lastSeen d' \<rparr>)"

text \<open>The client \<open>c'\<close> is the client \<open>c\<close> with nothing emitted, nothing staged and no record
  changed but for \<^verbatim>\<open>lastSeen\<close>.\<close>

definition only_refreshed :: "client \<Rightarrow> client \<Rightarrow> bool" where
  "only_refreshed c c' =
     (effects c' = effects c \<and> internal_devices c' = internal_devices c \<and>
      mdns_host_stategy c' = mdns_host_stategy c \<and>
      list_all2 refreshed (devices c') (devices c))"

text \<open>The identifier is in step: when its staged fragment is announceable, the registry
  has a record for it that carries the fragment.\<close>

definition in_step :: "string \<Rightarrow> client \<Rightarrow> bool" where
  "in_step u c =
     (case internal_devices c u of
        None \<Rightarrow> True
      | Some f \<Rightarrow>
          if truthy (f_host f) \<and> truthy (f_friendlyName f)
          then (case lookup c u of None \<Rightarrow> False | Some d \<Rightarrow> carries d f)
          else True)"

text \<open>The three records of one service instance of the Chromecast service class.\<close>

definition instance_records :: "string \<Rightarrow> jsval \<Rightarrow> txt_data \<Rightarrow> answer list" where
  "instance_records name target data =
     [PTR ''_googlecast._tcp.local'' name, SRV name target, TXT name data]"

text \<open>The name of an emitted event, \<^verbatim>\<open>close\<close> for a call of \<^verbatim>\<open>device.close()\<close>.\<close>

fun effect_name :: "effect \<Rightarrow> string" where
  "effect_name (Emit name d) = name"
| "effect_name (Close d) = ''close''"

section \<open>Example inputs\<close>

text \<open>A Chromecast as mDNS announces it: one response from 10.0.0.5 with the PTR record
  in the answers and the SRV and TXT records of the instance in the additionals.\<close>

definition ex_name :: string where
  "ex_name = ''Chromecast-Ultra-0123456789abcdef0123456789abcdef._googlecast._tcp.local''"

definition ex_uuid :: string where
  "ex_uuid = ''0123456789abcdef0123456789abcdef''"

definition ex_txt :: "string \<rightharpoonup> jsval" where
  "ex_txt = [''fn'' \<mapsto> Str ''Living Room TV'', ''d'' \<mapsto> Str ''Chromecast'']"

definition ex_mdns :: mdns_response where
  "ex_mdns =
     \<lparr> answers = [PTR ''_googlecast._tcp.local'' ex_name],
       additionals = [SRV ex_name (Str ''living-room.local''), TXT ex_name (TxtSingle ex_txt)],
       rinfo_address = ''10.0.0.5'' \<rparr>"

text \<open>The same response without its TXT record: no friendly name yet.\<close>

definition ex_mdns_no_txt :: mdns_response where
  "ex_mdns_no_txt =
     \<lparr> answers = [PTR ''_googlecast._tcp.local'' ex_name],
       additionals = [SRV ex_name (Str ''living-room.local'')],
       rinfo_address = ''10.0.0.5'' \<rparr>"


definition ex_ssdp_uuid :: string where
  "ex_ssdp_uuid = ''fedcba9876543210fedcba9876543210''"



text \<open>The first device again, as SSDP announces it.\<close>

definition ex_udn_same :: string where
  "ex_udn_same = ''uuid:01234567-89ab-cdef-0123-456789abcdef''"

definition ex_description_same :: ssdp_device where
  "ex_description_same =
     \<lparr> x_deviceType = Str ''urn:dial-multiscreen-org:device:dial:1'',
       x_friendlyName = Str ''Living Room TV'', x_manufacturer = Str ''Google Inc.'',
       x_modelName = Str ''Chromecast Ultra'', x_UDN = Str ex_udn_same \<rparr>"

definition ex_ssdp_same :: ssdp_response where
  "ex_ssdp_same =
     \<lparr> headers_LOCATION = Str ''http://10.0.0.5:8008/ssdp/device-desc.xml'',
       statusCode = 200, ssdp_address = ''10.0.0.5'',
       description = Parsed (Some ex_description_same) \<rparr>"

text \<open>Options that switch the garbage collector on: every second, two seconds of
  staleness.\<close>

definition ex_opts :: options where
  "ex_opts =
     \<lparr> opt_mdns_host_stategy = Undefined, opt_mdns_host_strategy = Undefined,
       opt_gc_interval = Some 1, opt_gc_threshold = Some 2 \<rparr>"

text \<open>The client after the mDNS response above was processed at second 100: what its
  fragment reads as, the object staged, the record and the state.\<close>

definition ex_fragment :: fragment where
  "ex_fragment =
     \<lparr> f_friendlyName = Str ''Living Room TV'', f_host = Str ''10.0.0.5'',
       f_uuid = Str ex_uuid, f_discoveryName = Str ex_name, f_manufacturer = Undefined,
       f_modelName = Str ''Chromecast'' \<rparr>"

definition ex_object :: obj where
  "ex_object =
     [FriendlyName \<mapsto> Str ''Living Room TV'', Host \<mapsto> Str ''10.0.0.5'',
      Uuid \<mapsto> Str ex_uuid, DiscoveryName \<mapsto> Str ex_name, ModelName \<mapsto> Str ''Chromecast'']"

definition ex_device :: device where
  "ex_device = created ex_uuid ex_fragment 100"

definition ex_client :: client where
  "ex_client =
     \<lparr> own_devices = [ex_uuid \<mapsto> ex_object], object_prototype = Map.empty,
       builtins = (\<lambda>k. Map.empty), devices = [ex_device],
       mdns_host_stategy = ''rinfo'', effects = [] \<rparr>"

text \<open>Options of a caller who asks for the host of the SRV record, under the key the
  source reads and under the key \<^verbatim>\<open>mdns_host_strategy\<close>.\<close>

definition ex_opts_stategy :: options where
  "ex_opts_stategy = ex_opts\<lparr> opt_mdns_host_stategy := Str ''srv'' \<rparr>"

definition ex_opts_strategy :: options where
  "ex_opts_strategy = ex_opts\<lparr> opt_mdns_host_strategy := Str ''srv'' \<rparr>"

text \<open>Two records that were last seen at second 100, and a client that holds them with
  their fragments; the second as the SSDP response above stages it.\<close>

definition ex_stale :: device where
  "ex_stale = ex_device\<lparr> d_last_seen := Some 100 \<rparr>"

definition ex_fragment2 :: fragment where
  "ex_fragment2 =
     \<lparr> f_friendlyName = Str ''Kitchen'', f_host = Str ''10.0.0.6'', f_uuid = Undefined,
       f_discoveryName = Str ''Chromecast-fedcba9876543210fedcba9876543210._googlecast._tcp.local'',
       f_manufacturer = Str ''Google Inc.'', f_modelName = Str ''Chromecast Ultra'' \<rparr>"

definition ex_object2 :: obj where
  "ex_object2 =
     [DiscoveryName \<mapsto> Str ''Chromecast-fedcba9876543210fedcba9876543210._googlecast._tcp.local'',
      FriendlyName \<mapsto> Str ''Kitchen'', Host \<mapsto> Str ''10.0.0.6'',
      Manufacturer \<mapsto> Str ''Google Inc.'', ModelName \<mapsto> Str ''Chromecast Ultra'']"

definition ex_stale2 :: device where
  "ex_stale2 = (created ex_ssdp_uuid ex_fragment2 100)\<lparr> d_last_seen := Some 100 \<rparr>"

definition ex_client_one :: client where
  "ex_client_one =
     \<lparr> own_devices = [ex_uuid \<mapsto> ex_object], object_prototype = Map.empty,
       builtins = (\<lambda>k. Map.empty), devices = [ex_stale],
       mdns_host_stategy = ''rinfo'', effects = [] \<rparr>"

definition ex_client_two :: client where
  "ex_client_two =
     \<lparr> own_devices = [ex_uuid \<mapsto> ex_object, ex_ssdp_uuid \<mapsto> ex_object2],
       object_prototype = Map.empty, builtins = (\<lambda>k. Map.empty),
       devices = [ex_stale, ex_stale2], mdns_host_stategy = ''rinfo'', effects = [] \<rparr>"

text \<open>The first response with the owner name of its SRV and TXT records in lower case;
  DNS names do not distinguish the case of letters.\<close>

definition ex_name_lower :: string where
  "ex_name_lower = ''chromecast-ultra-0123456789abcdef0123456789abcdef._googlecast._tcp.local''"

definition ex_mdns_mixed :: mdns_response where
  "ex_mdns_mixed =
     \<lparr> answers = [PTR ''_googlecast._tcp.local'' ex_name],
       additionals = [SRV ex_name_lower (Str ''living-room.local''),
                      TXT ex_name_lower (TxtSingle ex_txt)],
       rinfo_address = ''10.0.0.5'' \<rparr>"

text \<open>The names of what a run emitted.\<close>

fun events_of :: "error + client \<Rightarrow> string list" where
  "events_of (Inr c) = map effect_name (effects c)"
| "events_of (Inl e) = [''exception'']"

text \<open>The first response as devices send it: the PTR record in the answers, and the TXT
  record, the SRV record and an address record in the additionals.\<close>

definition ex_mdns_sent :: mdns_response where
  "ex_mdns_sent =
     \<lparr> answers = [PTR ''_googlecast._tcp.local'' ex_name],
       additionals = [TXT ex_name (TxtSingle ex_txt), SRV ex_name (Str ''living-room.local''),
                      OtherRecord],
       rinfo_address = ''10.0.0.5'' \<rparr>"

text \<open>
  A response from 10.0.0.9 with an SRV and a TXT record of an instance named
  \<^verbatim>\<open>__proto__\<close> and the PTR record of an instance named \<^verbatim>\<open>constructor\<close>; and two SSDP
  responses from there whose description documents have these two names as UDN.
\<close>

definition ex_mdns_inherited :: mdns_response where
  "ex_mdns_inherited =
     \<lparr> answers = [SRV ''__proto__'' (Str ''elsewhere.local''),
                  TXT ''__proto__'' (TxtSingle [''fn'' \<mapsto> Str ''Somebody'']),
                  PTR ''_googlecast._tcp.local'' ''constructor''],
       additionals = [],
       rinfo_address = ''10.0.0.9'' \<rparr>"

definition ex_ssdp_named :: "string \<Rightarrow> ssdp_response" where
  "ex_ssdp_named udn =
     \<lparr> headers_LOCATION = Str ''http://10.0.0.9:8008/ssdp/device-desc.xml'',
       statusCode = 200, ssdp_address = ''10.0.0.9'',
       description = Parsed (Some
         \<lparr> x_deviceType = Str ''urn:dial-multiscreen-org:device:dial:1'',
           x_friendlyName = Str ''Somebody'', x_manufacturer = Undefined,
           x_modelName = Undefined, x_UDN = Str udn \<rparr>) \<rparr>"

text \<open>
  A device whose instance name has no hexadecimal identifier in it, so that the name is
  its own identifier: the state after its mDNS records were processed, with a record
  that was last seen at second 100; an SSDP response for it; and its mDNS response.
\<close>

definition ex_tv :: string where
  "ex_tv = ''tv._googlecast._tcp.local''"

definition ex_udn_tv :: string where
  "ex_udn_tv = ''uuid:tv._googlecast._tcp.local''"

definition ex_txt_tv :: "string \<rightharpoonup> jsval" where
  "ex_txt_tv = [''fn'' \<mapsto> Str ''TV'', ''d'' \<mapsto> Str ''mDNS model'']"

definition ex_mdns_tv :: mdns_response where
  "ex_mdns_tv =
     \<lparr> answers = [PTR ''_googlecast._tcp.local'' ex_tv],
       additionals = [SRV ex_tv (Str ''tv.local''), TXT ex_tv (TxtSingle ex_txt_tv)],
       rinfo_address = ''10.0.0.7'' \<rparr>"

definition ex_description_tv :: ssdp_device where
  "ex_description_tv =
     \<lparr> x_deviceType = Str ''urn:dial-multiscreen-org:device:dial:1'',
       x_friendlyName = Str ''TV'', x_manufacturer = Str ''Google Inc.'',
       x_modelName = Str ''SSDP model'', x_UDN = Str ex_udn_tv \<rparr>"

definition ex_ssdp_tv :: ssdp_response where
  "ex_ssdp_tv =
     \<lparr> headers_LOCATION = Str ''http://10.0.0.7:8008/ssdp/device-desc.xml'',
       statusCode = 200, ssdp_address = ''10.0.0.7'',
       description = Parsed (Some ex_description_tv) \<rparr>"

definition ex_object_tv :: obj where
  "ex_object_tv =
     [FriendlyName \<mapsto> Str ''TV'', Host \<mapsto> Str ''10.0.0.7'', Uuid \<mapsto> Str ex_tv,
      DiscoveryName \<mapsto> Str ex_tv, ModelName \<mapsto> Str ''mDNS model'']"

definition ex_device_tv :: device where
  "ex_device_tv =
     (Device_new ex_tv (Str ex_tv) (Str ''TV'') (Str ''10.0.0.7'') Undefined
        (Str ''mDNS model'') 100)\<lparr> d_last_seen := Some 100 \<rparr>"

definition ex_client_tv :: client where
  "ex_client_tv =
     \<lparr> own_devices = [ex_tv \<mapsto> ex_object_tv], object_prototype = Map.empty,
       builtins = (\<lambda>k. Map.empty), devices = [ex_device_tv],
       mdns_host_stategy = ''rinfo'', effects = [] \<rparr>"

section \<open>Lists, loops and the shape of the callbacks\<close>

lemma find_replace_first:
  "find p xs = Some x \<Longrightarrow> p y \<Longrightarrow> find p (replace_first p y xs) = Some y"
  by (induction xs) (auto split: if_splits)

lemma find_snoc_new: "find p xs = None \<Longrightarrow> p y \<Longrightarrow> find p (xs @ [y]) = Some y"
  by (induction xs) (auto split: if_splits)

lemma js_neq_eq: "\<not> js_neq a b \<Longrightarrow> a \<noteq> Null \<Longrightarrow> b \<noteq> Null \<Longrightarrow> a = b"
  by (cases a; cases b) auto

lemma find_Some_holds: "find p xs = Some x \<Longrightarrow> p x \<and> x \<in> set xs"
  by (induction xs) (auto split: if_splits)







lemma and_then_Inr [simp]: "and_then (Inr x) f = f x"
  by (simp add: and_then_def)

lemma and_then_Inl [simp]: "and_then (Inl e) f = Inl e"
  by (simp add: and_then_def)

section \<open>The internal table\<close>

text \<open>What changes only the registry or the emitted events leaves the table alone.\<close>

lemma inherited_devices [simp]:
  "inherited (c\<lparr> devices := ds \<rparr>) = inherited c" "inherited (c\<lparr> effects := es \<rparr>) = inherited c"
  by (simp_all add: inherited_def fun_eq_iff)

lemma entry_of_devices [simp]:
  "entry_of (c\<lparr> devices := ds \<rparr>) = entry_of c" "entry_of (c\<lparr> effects := es \<rparr>) = entry_of c"
  by (simp_all add: entry_of_def fun_eq_iff split: option.splits)

lemma own_props_devices [simp]:
  "own_props (c\<lparr> devices := ds \<rparr>) = own_props c" "own_props (c\<lparr> effects := es \<rparr>) = own_props c"
  by (simp_all add: own_props_def fun_eq_iff split: ref.splits)

lemma read_prop_devices [simp]:
  "read_prop (c\<lparr> devices := ds \<rparr>) = read_prop c" "read_prop (c\<lparr> effects := es \<rparr>) = read_prop c"
  by (simp_all add: read_prop_def fun_eq_iff split: option.splits)

lemma internal_devices_devices [simp]:
  "internal_devices (c\<lparr> devices := ds \<rparr>) = internal_devices c"
  "internal_devices (c\<lparr> effects := es \<rparr>) = internal_devices c"
  by (simp_all add: internal_devices_def fun_eq_iff split: entry.splits jsval.splits)

lemma fragment_of_sel [simp]:
  "f_friendlyName (fragment_of g) = g FriendlyName" "f_host (fragment_of g) = g Host"
  "f_uuid (fragment_of g) = g Uuid" "f_discoveryName (fragment_of g) = g DiscoveryName"
  "f_manufacturer (fragment_of g) = g Manufacturer" "f_modelName (fragment_of g) = g ModelName"
  by (simp_all add: fragment_of_def)

lemma fragment_of_upd: "fragment_of (g(p := v)) = put_field p v (fragment_of g)"
  by (cases p) (simp_all add: fragment_of_def)

lemma put_field_same: "fragment_of g = f \<Longrightarrow> g p = v \<Longrightarrow> put_field p v f = f"
  by (cases p) (auto simp: fragment_of_def)

text \<open>The keys that yield an object, and the object each of them yields.\<close>

lemma entry_Object_cases:
  assumes "entry_of c u = Object r"
  shows "(r = Own u \<and> own_devices c u \<noteq> None) \<or>
         (r = ObjectPrototype \<and> u = ''__proto__'' \<and> own_devices c u = None) \<or>
         (r = Builtin u \<and> u \<in> set Object_prototype_methods \<and> u \<noteq> ''__proto__'' \<and>
          own_devices c u = None)"
  using assms by (auto simp: entry_of_def split: option.splits if_splits)

lemma entry_Object_inj:
  assumes "entry_of c u = Object r" "entry_of c u' = Object r"
  shows "u' = u"
  using entry_Object_cases[OF assms(1)] entry_Object_cases[OF assms(2)] by auto





text \<open>Setting a property.\<close>

lemma write_prop_frame [simp]:
  "devices (write_prop r p v c) = devices c" "effects (write_prop r p v c) = effects c"
  "mdns_host_stategy (write_prop r p v c) = mdns_host_stategy c"
  by (simp_all add: write_prop_def split: ref.splits)

lemma own_props_write:
  "own_props (write_prop r p v c) r' = (if r' = r then (own_props c r)(p \<mapsto> v) else own_props c r')"
  by (cases r; cases r') (auto simp: write_prop_def own_props_def)

lemma inherited_write:
  "inherited (write_prop r p v c) p' =
     (if r = ObjectPrototype \<and> p' = p then v else inherited c p')"
  by (cases r) (auto simp: write_prop_def inherited_def own_props_def)

lemma read_prop_write_same [simp]: "read_prop (write_prop r p v c) r = (read_prop c r)(p := v)"
  by (auto simp: read_prop_def own_props_write inherited_write fun_eq_iff split: option.splits)

lemma entry_live: "entry_of c u = Object r \<Longrightarrow> live c r"
  by (auto simp: live_def dest: entry_Object_cases split: ref.splits)

lemma live_write [simp]: "live c r' \<Longrightarrow> live (write_prop r p v c) r'"
  by (cases r; cases r') (auto simp: live_def write_prop_def)

lemma entry_of_write:
  assumes "live c r" "entry_of c u' = Object r'"
  shows "entry_of (write_prop r p v c) u' = Object r'"
proof -
  have dom: "(own_devices (write_prop r p v c) k = None) = (own_devices c k = None)" for k
    using assms(1) by (cases r) (auto simp: write_prop_def live_def)
  show ?thesis
    using entry_Object_cases[OF assms(2)] dom[of u']
    by (auto simp: entry_of_def split: option.splits)
qed

lemma entry_of_write_same [simp]:
  "entry_of c u = Object r \<Longrightarrow> entry_of (write_prop r p v c) u = Object r"
  by (rule entry_of_write[OF entry_live])




lemma write_if_frame [simp]:
  "devices (write_if b r p v c) = devices c" "effects (write_if b r p v c) = effects c"
  "mdns_host_stategy (write_if b r p v c) = mdns_host_stategy c"
  by (simp_all add: write_if_def)

lemma live_write_if [simp]: "live c r' \<Longrightarrow> live (write_if b r p v c) r'"
  by (simp add: write_if_def)

lemma entry_of_write_if:
  "live c r \<Longrightarrow> entry_of c u' = Object r' \<Longrightarrow> entry_of (write_if b r p v c) u' = Object r'"
  by (simp add: write_if_def entry_of_write)

lemma entry_of_write_if_same [simp]:
  "entry_of c u = Object r \<Longrightarrow> entry_of (write_if b r p v c) u = Object r"
  by (rule entry_of_write_if[OF entry_live])

lemma read_prop_write_if_same:
  "read_prop (write_if b r p v c) r = (if b then (read_prop c r)(p := v) else read_prop c r)"
  by (simp add: write_if_def)

lemma own_props_write_if:
  "own_props (write_if b r p v c) r' =
     (if b \<and> r' = r then (own_props c r)(p \<mapsto> v) else own_props c r')"
  by (simp add: write_if_def own_props_write)

lemma fragment_of_write_if:
  "fragment_of (read_prop (write_if b r p v c) r) =
     (if b then put_field p v (fragment_of (read_prop c r)) else fragment_of (read_prop c r))"
  by (simp add: write_if_def fragment_of_upd)

text \<open>Staging an object under a key.\<close>

lemma stage_frame [simp]:
  "devices (stage u ob c) = devices c" "effects (stage u ob c) = effects c"
  "mdns_host_stategy (stage u ob c) = mdns_host_stategy c"
  "inherited (stage u ob c) p = inherited c p"
  by (simp_all add: stage_def inherited_def)

lemma entry_of_stage:
  "entry_of (stage u ob c) u' = (if u' = u then Object (Own u) else entry_of c u')"
  by (simp add: entry_of_def stage_def inherited_def split: option.splits)

lemma own_props_stage:
  "own_props (stage u ob c) r = (if r = Own u then ob else own_props c r)"
  by (cases r) (auto simp: own_props_def stage_def)

lemma read_prop_stage:
  "read_prop (stage u ob c) r p =
     (if r = Own u then (case ob p of Some v \<Rightarrow> v | None \<Rightarrow> inherited c p) else read_prop c r p)"
  by (simp add: read_prop_def own_props_stage split: option.splits)

section \<open>The shape of the callbacks\<close>

lemma parseUUID_Nil [simp]: "parseUUID [] = []"
  by code_simp

lemma updateDevice_new:
  assumes "internal_devices c uuid = Some f" "lookup c uuid = None"
  shows "updateDevice now uuid c =
     Inr (c\<lparr> devices := devices c @ [created uuid f now],
             effects := effects c @ [Emit ''device'' (created uuid f now),
                    Emit ''device_online'' (created uuid f now)] \<rparr>)"
  using assms by (simp add: updateDevice_def lookup_def emit_if_def Let_def created_def)

lemma updateDevice_known:
  assumes "internal_devices c uuid = Some f" "lookup c uuid = Some old"
  shows "updateDevice now uuid c =
     Inr (c\<lparr> devices := replace_first (\<lambda>v. d_uuid v = uuid) (overwrite f now old) (devices c),
             effects := effects c @
               (if differs f old
                then [Emit ''device'' (overwrite f now old), Emit ''device_updated'' (overwrite f now old)]
                else []) \<rparr>)"
  using assms by (simp add: updateDevice_def lookup_def emit_if_def differs_def overwrite_def Let_def)

lemma updateDevice_table:
  assumes "updateDevice now uuid c = Inr c'"
  shows "entry_of c' = entry_of c \<and> own_props c' = own_props c \<and> read_prop c' = read_prop c \<and>
         inherited c' = inherited c \<and> internal_devices c' = internal_devices c \<and>
         mdns_host_stategy c' = mdns_host_stategy c \<and> own_devices c' = own_devices c"
  using assms by (auto simp: updateDevice_def Let_def split: option.splits)

lemma announce_table:
  assumes "announce now uuid c = Inr c'"
  shows "entry_of c' = entry_of c \<and> own_props c' = own_props c \<and> read_prop c' = read_prop c \<and>
         inherited c' = inherited c \<and> internal_devices c' = internal_devices c \<and>
         mdns_host_stategy c' = mdns_host_stategy c \<and> own_devices c' = own_devices c"
  using assms updateDevice_table[of now uuid c c']
  by (auto simp: announce_def split: option.splits if_splits)

lemma write_answer_frame [simp]:
  "devices (write_answer r s h a c) = devices c" "effects (write_answer r s h a c) = effects c"
  "mdns_host_stategy (write_answer r s h a c) = mdns_host_stategy c"
  by (cases a; simp add: Let_def)+

lemma live_write_answer [simp]: "live c r' \<Longrightarrow> live (write_answer r s h a c) r'"
  by (cases a) (simp_all add: Let_def)

lemma entry_of_write_answer:
  assumes "live c r" "entry_of c u' = Object r'"
  shows "entry_of (write_answer r s h a c) u' = Object r'"
  using assms by (cases a) (simp_all add: Let_def entry_of_write_if entry_of_write)

lemma view_write_answer:
  "fragment_of (read_prop (write_answer r s h a c) r) =
     absorb_answer s h a (fragment_of (read_prop c r))"
  by (cases a)
     (simp_all add: Let_def fragment_of_write_if set_discoveryName_def fragment_of_upd
        read_prop_write_if_same)


lemma write_ssdp_frame [simp]:
  "devices (write_ssdp r a dev udn c) = devices c" "effects (write_ssdp r a dev udn c) = effects c"
  "mdns_host_stategy (write_ssdp r a dev udn c) = mdns_host_stategy c"
  by (simp_all add: write_ssdp_def)

lemma live_write_ssdp [simp]: "live c r' \<Longrightarrow> live (write_ssdp r a dev udn c) r'"
  by (simp add: write_ssdp_def)

lemma entry_of_write_ssdp:
  assumes "live c r" "entry_of c u' = Object r'"
  shows "entry_of (write_ssdp r a dev udn c) u' = Object r'"
  using assms by (simp add: write_ssdp_def entry_of_write_if)

lemma synthesized_name_nonempty [simp]: "synthesized_name udn \<noteq> []"
  by (simp add: synthesized_name_def)

lemma view_write_ssdp:
  "fragment_of (read_prop (write_ssdp r a dev udn c) r) =
     absorb_ssdp a dev udn (fragment_of (read_prop c r))"
  by (simp add: write_ssdp_def absorb_ssdp_def Let_def fragment_of_write_if)


section \<open>Properties of the identifier normalizer\<close>

lemma hex_run_iff: "hex_run n s \<longleftrightarrow> n \<le> length s \<and> list_all is_hex (take n s)"
  by (induction n s rule: hex_run.induct) auto

lemma drop_eq_Cons_iff: "drop n s = c # cs \<longleftrightarrow> n < length s \<and> s ! n = c \<and> cs = drop (Suc n) s"
proof
  assume h: "drop n s = c # cs"
  then have l: "n < length s" by (metis drop_eq_Nil2 leI list.distinct(1))
  from Cons_nth_drop_Suc[OF l] h show "n < length s \<and> s ! n = c \<and> cs = drop (Suc n) s" using l by simp
next
  assume "n < length s \<and> s ! n = c \<and> cs = drop (Suc n) s"
  then show "drop n s = c # cs" using Cons_nth_drop_Suc by metis
qed

lemma UUID_REGEX_iff: "UUID_REGEX t \<longleftrightarrow> occurs_at hyphenated_uuid 36 t 0"
  apply (simp add: UUID_REGEX_def occurs_at_def hyphenated_uuid_def hex_run_iff drop_eq_Cons_iff
     split: list.splits)
  apply (auto simp: min_def take_drop)
  done

lemma UUID_REGEX_NO_HYPENS_iff: "UUID_REGEX_NO_HYPENS t \<longleftrightarrow> occurs_at bare_uuid 32 t 0"
  by (auto simp: UUID_REGEX_NO_HYPENS_def occurs_at_def bare_uuid_def hex_run_iff)

lemma occurs_at_Cons_Suc: "occurs_at P n (c # cs) (Suc i) = occurs_at P n cs i"
  by (simp add: occurs_at_def)

lemma match_None_iff:
  assumes re: "\<And>t. re t = occurs_at P n t 0"
  shows "match re n s = None \<longleftrightarrow> (\<forall>i. \<not> occurs_at P n s i)"
proof (induction s)
  case Nil
  show ?case by (auto simp: re occurs_at_def)
next
  case (Cons c cs)
  show ?case
  proof (cases "re (c # cs)")
    case True
    then show ?thesis using re by auto
  next
    case False
    have "(\<forall>i. \<not> occurs_at P n (c # cs) i) \<longleftrightarrow> (\<forall>i. \<not> occurs_at P n cs i)"
    proof
      assume a: "\<forall>i. \<not> occurs_at P n (c # cs) i"
      show "\<forall>i. \<not> occurs_at P n cs i"
        using a occurs_at_Cons_Suc[of P n c cs] by blast
    next
      assume a: "\<forall>i. \<not> occurs_at P n cs i"
      show "\<forall>i. \<not> occurs_at P n (c # cs) i"
      proof
        fix i show "\<not> occurs_at P n (c # cs) i"
          using a False re occurs_at_Cons_Suc[of P n c cs] by (cases i) auto
      qed
    qed
    then show ?thesis using False Cons.IH by simp
  qed
qed

lemma match_Some:
  assumes re: "\<And>t. re t = occurs_at P n t 0"
  shows "match re n s = Some m \<Longrightarrow>
         \<exists>i. occurs_at P n s i \<and> (\<forall>j<i. \<not> occurs_at P n s j) \<and> m = take n (drop i s)"
proof (induction s)
  case Nil
  then show ?case by (auto simp: re split: if_splits)
next
  case (Cons c cs)
  show ?case
  proof (cases "re (c # cs)")
    case True
    with Cons.prems have "m = take n (drop 0 (c # cs))" by simp
    moreover have "occurs_at P n (c # cs) 0" using True re by simp
    ultimately show ?thesis by blast
  next
    case False
    with Cons.prems have "match re n cs = Some m" by simp
    from Cons.IH[OF this] obtain i where i: "occurs_at P n cs i"
      "\<forall>j<i. \<not> occurs_at P n cs j" "m = take n (drop i cs)" by blast
    have "occurs_at P n (c # cs) (Suc i)" using i(1) by (simp add: occurs_at_Cons_Suc)
    moreover have "\<forall>j<Suc i. \<not> occurs_at P n (c # cs) j"
    proof (intro allI impI)
      fix j assume "j < Suc i"
      then show "\<not> occurs_at P n (c # cs) j"
        using i(2) False re occurs_at_Cons_Suc[of P n c cs] by (cases j) auto
    qed
    moreover have "m = take n (drop (Suc i) (c # cs))" using i(3) by simp
    ultimately show ?thesis by blast
  qed
qed

lemma strip_hyphens_replace_first:
  "strip_hyphens (replace_first_hyphen m) = strip_hyphens m"
  unfolding strip_hyphens_def replace_first_hyphen_def
  by (induction m) auto

text \<open>
  Claim C3, as the code has it. For every string \<open>s\<close>, \<open>parseUUID s\<close> is a value (the function
  is total) and
  \<^enum> when \<open>s\<close> contains a hyphenated identifier (8-4-4-4-12 hexadecimal digits in either
    letter case), the result keeps exactly the characters of the leftmost such match that
    are not hyphens, in their order and in the letter case of the input;
  \<^enum> otherwise, when \<open>s\<close> contains 32 hexadecimal digits in a row, the result is the leftmost
    such window of 32 characters, verbatim;
  \<^enum> otherwise the result is \<open>s\<close> itself.
  How many hyphens of the match survive in the first case is not part of this statement.
\<close>

theorem parseUUID_contract:
  "((\<exists>i. occurs_at hyphenated_uuid 36 s i) \<longrightarrow>
      (\<exists>i. occurs_at hyphenated_uuid 36 s i \<and> (\<forall>j<i. \<not> occurs_at hyphenated_uuid 36 s j) \<and>
           strip_hyphens (parseUUID s) = strip_hyphens (take 36 (drop i s)))) \<and>
   ((\<forall>i. \<not> occurs_at hyphenated_uuid 36 s i) \<and> (\<exists>i. occurs_at bare_uuid 32 s i) \<longrightarrow>
      (\<exists>i. occurs_at bare_uuid 32 s i \<and> (\<forall>j<i. \<not> occurs_at bare_uuid 32 s j) \<and>
           parseUUID s = take 32 (drop i s))) \<and>
   ((\<forall>i. \<not> occurs_at hyphenated_uuid 36 s i) \<and> (\<forall>i. \<not> occurs_at bare_uuid 32 s i) \<longrightarrow>
      parseUUID s = s)"
proof (intro conjI impI)
  assume "\<exists>i. occurs_at hyphenated_uuid 36 s i"
  then have "match UUID_REGEX 36 s \<noteq> None"
    using match_None_iff[of UUID_REGEX hyphenated_uuid 36 s] UUID_REGEX_iff by blast
  then obtain m where m: "match UUID_REGEX 36 s = Some m" by blast
  from match_Some[of UUID_REGEX hyphenated_uuid 36 s m, OF UUID_REGEX_iff m]
  obtain i where i: "occurs_at hyphenated_uuid 36 s i"
    "\<forall>j<i. \<not> occurs_at hyphenated_uuid 36 s j" "m = take 36 (drop i s)" by blast
  have "strip_hyphens (parseUUID s) = strip_hyphens m"
    by (simp add: parseUUID_def m strip_hyphens_replace_first)
  with i show "\<exists>i. occurs_at hyphenated_uuid 36 s i \<and>
      (\<forall>j<i. \<not> occurs_at hyphenated_uuid 36 s j) \<and>
      strip_hyphens (parseUUID s) = strip_hyphens (take 36 (drop i s))" by blast
next
  assume a: "(\<forall>i. \<not> occurs_at hyphenated_uuid 36 s i) \<and> (\<exists>i. occurs_at bare_uuid 32 s i)"
  then have n1: "match UUID_REGEX 36 s = None"
    using match_None_iff[of UUID_REGEX hyphenated_uuid 36 s] UUID_REGEX_iff by blast
  from a have "match UUID_REGEX_NO_HYPENS 32 s \<noteq> None"
    using match_None_iff[of UUID_REGEX_NO_HYPENS bare_uuid 32 s] UUID_REGEX_NO_HYPENS_iff by blast
  then obtain m where m: "match UUID_REGEX_NO_HYPENS 32 s = Some m" by blast
  from match_Some[of UUID_REGEX_NO_HYPENS bare_uuid 32 s m, OF UUID_REGEX_NO_HYPENS_iff m]
  obtain i where i: "occurs_at bare_uuid 32 s i"
    "\<forall>j<i. \<not> occurs_at bare_uuid 32 s j" "m = take 32 (drop i s)" by blast
  have "parseUUID s = m" by (simp add: parseUUID_def n1 m)
  with i show "\<exists>i. occurs_at bare_uuid 32 s i \<and> (\<forall>j<i. \<not> occurs_at bare_uuid 32 s j) \<and>
           parseUUID s = take 32 (drop i s)" by blast
next
  assume a: "(\<forall>i. \<not> occurs_at hyphenated_uuid 36 s i) \<and> (\<forall>i. \<not> occurs_at bare_uuid 32 s i)"
  then have n1: "match UUID_REGEX 36 s = None"
    using match_None_iff[of UUID_REGEX hyphenated_uuid 36 s] UUID_REGEX_iff by blast
  from a have n2: "match UUID_REGEX_NO_HYPENS 32 s = None"
    using match_None_iff[of UUID_REGEX_NO_HYPENS bare_uuid 32 s] UUID_REGEX_NO_HYPENS_iff by blast
  show "parseUUID s = s" by (simp add: parseUUID_def n1 n2)
qed

theorem parseUUID_contract_witness:
  "(\<exists>i. occurs_at hyphenated_uuid 36 ''uuid:ABCDEF01-2345-6789-abcd-ef0123456789'' i \<and>
        (\<forall>j<i. \<not> occurs_at hyphenated_uuid 36 ''uuid:ABCDEF01-2345-6789-abcd-ef0123456789'' j) \<and>
        strip_hyphens (parseUUID ''uuid:ABCDEF01-2345-6789-abcd-ef0123456789'') =
        strip_hyphens (take 36 (drop i ''uuid:ABCDEF01-2345-6789-abcd-ef0123456789''))) \<and>
   (\<exists>i. occurs_at bare_uuid 32 ''Chromecast-0123456789abcdef0123456789abcdef.local'' i \<and>
        (\<forall>j<i. \<not> occurs_at bare_uuid 32 ''Chromecast-0123456789abcdef0123456789abcdef.local'' j) \<and>
        parseUUID ''Chromecast-0123456789abcdef0123456789abcdef.local'' =
        take 32 (drop i ''Chromecast-0123456789abcdef0123456789abcdef.local'')) \<and>
   parseUUID ''Living Room'' = ''Living Room''"
proof -
  have h1: "\<exists>i. occurs_at hyphenated_uuid 36 ''uuid:ABCDEF01-2345-6789-abcd-ef0123456789'' i"
  proof
    show "occurs_at hyphenated_uuid 36 ''uuid:ABCDEF01-2345-6789-abcd-ef0123456789'' 5"
      by code_simp
  qed
  have "match UUID_REGEX 36 ''Chromecast-0123456789abcdef0123456789abcdef.local'' = None"
    by code_simp
  then have h2: "\<forall>i. \<not> occurs_at hyphenated_uuid 36
      ''Chromecast-0123456789abcdef0123456789abcdef.local'' i"
    using match_None_iff[of UUID_REGEX hyphenated_uuid 36] UUID_REGEX_iff by blast
  have h3: "\<exists>i. occurs_at bare_uuid 32 ''Chromecast-0123456789abcdef0123456789abcdef.local'' i"
  proof
    show "occurs_at bare_uuid 32 ''Chromecast-0123456789abcdef0123456789abcdef.local'' 11"
      by code_simp
  qed
  have "match UUID_REGEX 36 ''Living Room'' = None" by code_simp
  then have h4: "\<forall>i. \<not> occurs_at hyphenated_uuid 36 ''Living Room'' i"
    using match_None_iff[of UUID_REGEX hyphenated_uuid 36] UUID_REGEX_iff by blast
  have "match UUID_REGEX_NO_HYPENS 32 ''Living Room'' = None" by code_simp
  then have h5: "\<forall>i. \<not> occurs_at bare_uuid 32 ''Living Room'' i"
    using match_None_iff[of UUID_REGEX_NO_HYPENS bare_uuid 32] UUID_REGEX_NO_HYPENS_iff by blast
  show ?thesis
    using parseUUID_contract[of "''uuid:ABCDEF01-2345-6789-abcd-ef0123456789''"]
      parseUUID_contract[of "''Chromecast-0123456789abcdef0123456789abcdef.local''"]
      parseUUID_contract[of "''Living Room''"] h1 h2 h3 h4 h5
    by blast
qed

text \<open>
  Claim C3 as it is written fails on an identifier in upper case: \<^verbatim>\<open>replace('-', '')\<close>
  takes out the first hyphen only and nothing changes the letter case, so the result has
  35 characters, three of them hyphens, and is not the lowercase identifier of 32
  hexadecimal digits.
\<close>

theorem parseUUID_hyphenated_counterexample:
  "occurs_at hyphenated_uuid 36 ''ABCDEF01-2345-6789-abcd-ef0123456789'' 0 \<and>
   parseUUID ''ABCDEF01-2345-6789-abcd-ef0123456789'' = ''ABCDEF012345-6789-abcd-ef0123456789'' \<and>
   parseUUID ''ABCDEF01-2345-6789-abcd-ef0123456789'' \<noteq>
     strip_hyphens ''ABCDEF01-2345-6789-abcd-ef0123456789'' \<and>
   parseUUID ''ABCDEF01-2345-6789-abcd-ef0123456789'' \<noteq> ''abcdef0123456789abcdef0123456789'' \<and>
   length (parseUUID ''ABCDEF01-2345-6789-abcd-ef0123456789'') = 35"
  by code_simp

section \<open>Properties of the reconciliation\<close>

text \<open>
  Claim C7. A reconciliation of a staged fragment returns, and what it emits is, in this
  order: the event \<^verbatim>\<open>device\<close> exactly when the identifier had no record or some compared
  field differs from the record; \<^verbatim>\<open>device_online\<close> exactly when the identifier had no
  record; \<^verbatim>\<open>device_updated\<close> exactly when it had a record and some compared field differs.
  The record afterwards carries the values of the fragment and the clock's reading in
  \<^verbatim>\<open>lastSeen\<close>. When nothing differs there is no event and the record is the old one but
  for \<^verbatim>\<open>lastSeen\<close>: field by field in the sense of \<^verbatim>\<open>==\<close>, which is how the source compares,
  and identical when no compared value is \<^verbatim>\<open>null\<close>.
\<close>

theorem updateDevice_event_discipline:
  assumes staged: "internal_devices c uuid = Some f"
  shows "\<exists>c' dev.
     updateDevice now uuid c = Inr c' \<and> lookup c' uuid = Some dev \<and>
     effects c' = effects c @
       (if lookup c uuid = None \<or> (\<exists>old. lookup c uuid = Some old \<and> differs f old)
        then [Emit ''device'' dev] else []) @
       (if lookup c uuid = None then [Emit ''device_online'' dev] else []) @
       (if \<exists>old. lookup c uuid = Some old \<and> differs f old
        then [Emit ''device_updated'' dev] else []) \<and>
     d_uuid dev = uuid \<and> carries dev f \<and> d_lastSeen dev = Some now \<and>
     internal_devices c' = internal_devices c \<and>
     (lookup c uuid = None \<longrightarrow> devices c' = devices c @ [dev]) \<and>
     (\<forall>old. lookup c uuid = Some old \<longrightarrow>
        devices c' = replace_first (\<lambda>v. d_uuid v = uuid) dev (devices c) \<and>
        d_last_seen dev = d_last_seen old \<and>
        (\<not> differs f old \<longrightarrow>
           effects c' = effects c \<and> same_but_lastSeen dev old \<and>
           (null_free old \<and> null_free dev \<longrightarrow> dev = old\<lparr> d_lastSeen := Some now \<rparr>)))"
proof (cases "lookup c uuid")
  case None
  let ?d = "created uuid f now"
  let ?c' = "c\<lparr> devices := devices c @ [?d],
             effects := effects c @ [Emit ''device'' ?d, Emit ''device_online'' ?d] \<rparr>"
  have run: "updateDevice now uuid c = Inr ?c'"
    using updateDevice_new[OF staged None] .
  have found: "lookup ?c' uuid = Some ?d"
    using None by (simp add: lookup_def find_snoc_new created_def Device_new_def)
  have fields: "d_uuid ?d = uuid \<and> carries ?d f \<and> d_lastSeen ?d = Some now"
    by (simp add: created_def Device_new_def carries_def)
  show ?thesis
    apply (rule exI[of _ ?c'], rule exI[of _ ?d])
    using run found fields None by simp
next
  case (Some old)
  let ?d = "overwrite f now old"
  let ?c' = "c\<lparr> devices := replace_first (\<lambda>v. d_uuid v = uuid) ?d (devices c),
             effects := effects c @
               (if differs f old then [Emit ''device'' ?d, Emit ''device_updated'' ?d] else []) \<rparr>"
  have run: "updateDevice now uuid c = Inr ?c'"
    using updateDevice_known[OF staged Some] .
  have old: "d_uuid old = uuid"
    using Some find_Some_holds[of "\<lambda>v. d_uuid v = uuid" "devices c" old] by (simp add: lookup_def)
  have found: "lookup ?c' uuid = Some ?d"
    using Some old by (simp add: lookup_def find_replace_first overwrite_def)
  have fields: "d_uuid ?d = uuid \<and> carries ?d f \<and> d_lastSeen ?d = Some now \<and>
      d_last_seen ?d = d_last_seen old"
    using old by (simp add: overwrite_def carries_def)
  have same: "same_but_lastSeen ?d old" if "\<not> differs f old"
    using that by (simp add: same_but_lastSeen_def differs_def overwrite_def)
  have strict: "?d = old\<lparr> d_lastSeen := Some now \<rparr>"
    if "\<not> differs f old" "null_free old" "null_free ?d"
  proof -
    have "f_discoveryName f = d_name old" "f_friendlyName f = d_friendlyName old"
      "f_host f = d_host old" "f_manufacturer f = d_manufacturer old"
      "f_modelName f = d_modelName old"
      using that by (auto simp: differs_def null_free_def overwrite_def intro: js_neq_eq)
    then show ?thesis by (simp add: overwrite_def)
  qed
  show ?thesis
    apply (rule exI[of _ ?c'], rule exI[of _ ?d])
    using run found fields Some same strict by simp
qed

theorem updateDevice_event_discipline_witness:
  "internal_devices ex_client ex_uuid = Some ex_fragment \<and>
   (\<exists>c' dev. updateDevice 107 ex_uuid ex_client = Inr c' \<and> lookup c' ex_uuid = Some dev \<and>
      effects c' = [] \<and> devices c' = [dev] \<and> dev = ex_device\<lparr> d_lastSeen := Some 107 \<rparr>)"
proof -
  have s: "internal_devices ex_client ex_uuid = Some ex_fragment"
    by code_simp
  have l: "lookup ex_client ex_uuid = Some ex_device"
    by (simp add: lookup_def ex_client_def ex_device_def created_def Device_new_def)
  have nd: "\<not> differs ex_fragment ex_device"
    by (simp add: differs_def ex_device_def created_def Device_new_def ex_fragment_def)
  have nf: "null_free ex_device"
    by (simp add: null_free_def ex_device_def created_def Device_new_def ex_fragment_def)
  have nc: "carries dev ex_fragment \<Longrightarrow> null_free dev" for dev
    by (simp add: carries_def null_free_def ex_fragment_def)
  from updateDevice_event_discipline[OF s, of 107] obtain c' dev where
    r: "updateDevice 107 ex_uuid ex_client = Inr c'" "lookup c' ex_uuid = Some dev"
      "carries dev ex_fragment"
      "\<forall>old. lookup ex_client ex_uuid = Some old \<longrightarrow>
        devices c' = replace_first (\<lambda>v. d_uuid v = ex_uuid) dev (devices ex_client) \<and>
        d_last_seen dev = d_last_seen old \<and>
        (\<not> differs ex_fragment old \<longrightarrow>
           effects c' = effects ex_client \<and> same_but_lastSeen dev old \<and>
           (null_free old \<and> null_free dev \<longrightarrow> dev = old\<lparr> d_lastSeen := Some 107 \<rparr>))"
    by blast
  from r(4) l nd nf nc[OF r(3)] have
    "devices c' = replace_first (\<lambda>v. d_uuid v = ex_uuid) dev (devices ex_client)"
    "effects c' = effects ex_client" "dev = ex_device\<lparr> d_lastSeen := Some 107 \<rparr>"
    by blast+
  moreover have "replace_first (\<lambda>v. d_uuid v = ex_uuid) dev (devices ex_client) = [dev]"
    by (simp add: ex_client_def ex_device_def created_def Device_new_def)
  moreover have "effects ex_client = []" by (simp add: ex_client_def)
  ultimately show ?thesis using s r(1,2) by auto
qed

section \<open>At most one record for an identifier\<close>

lemma unique_uuids_frame [simp]:
  "unique_uuids (stage u ob c) = unique_uuids c"
  "unique_uuids (write_answer r s h a c) = unique_uuids c"
  "unique_uuids (write_ssdp r ad dev udn c) = unique_uuids c"
  by (simp_all add: unique_uuids_def)













section \<open>Identifiers that are keys of \<^verbatim>\<open>Object.prototype\<close>\<close>

text \<open>
  Claim C4 asks that a record enters the registry only after a host and a friendly name
  were observed for its identifier. The table is a plain object: \<^verbatim>\<open>this._devices[uuid]\<close>
  is \<^verbatim>\<open>Object.prototype\<close> for the key \<^verbatim>\<open>__proto__\<close> and the function \<^verbatim>\<open>Object\<close> for the key
  \<^verbatim>\<open>constructor\<close>. One mDNS response with an SRV and a TXT record named \<^verbatim>\<open>__proto__\<close> and
  the PTR record of an instance named \<^verbatim>\<open>constructor\<close>, at a new client: the SRV and the
  TXT record set \<^verbatim>\<open>host\<close> and \<^verbatim>\<open>friendlyName\<close> on \<^verbatim>\<open>Object.prototype\<close>, where every object
  finds them, and the PTR record then registers a record for \<^verbatim>\<open>constructor\<close>, an
  identifier that no record of the response carries a host or a friendly name for.
\<close>

theorem inherited_key_announced:
  "(case run ex_opts [Mdns 100 ex_mdns_inherited] (Client_new ex_opts) of
      Inl e \<Rightarrow> False
    | Inr c \<Rightarrow>
        map d_uuid (devices c) = [''__proto__'', ''constructor''] \<and>
        map d_host (devices c) = [Str ''10.0.0.9'', Str ''10.0.0.9''] \<and>
        map d_friendlyName (devices c) = [Str ''Somebody'', Str ''Somebody''] \<and>
        map effect_name (effects c) =
          [''device'', ''device_online'', ''device'', ''device_online''] \<and>
        own_props c (Builtin ''constructor'') Host = None \<and>
        own_props c (Builtin ''constructor'') FriendlyName = None \<and>
        own_devices c ''constructor'' = None) \<and>
   \<not> offers_host ''rinfo'' (Mdns 100 ex_mdns_inherited) ''constructor'' \<and>
   \<not> offers_friendlyName (Mdns 100 ex_mdns_inherited) ''constructor'' \<and>
   entry_of (Client_new ex_opts) ''__proto__'' = Object ObjectPrototype \<and>
   entry_of (Client_new ex_opts) ''constructor'' = Object (Builtin ''constructor'')"
  by code_simp

text \<open>
  Claim C6 asks that an SSDP response gives an identifier whose discovery name is unset
  the name generated from its own UDN. Two SSDP responses at a new client, the first with
  the UDN \<^verbatim>\<open>__proto__\<close>, the second with the UDN \<^verbatim>\<open>constructor\<close>: the first writes its
  generated name onto \<^verbatim>\<open>Object.prototype\<close>; the second finds that name when it reads the
  discovery name of \<^verbatim>\<open>Object\<close>, which has none of its own, and keeps it, so its record is
  named after the UDN of the first.
\<close>

theorem inherited_name_kept:
  "(case run ex_opts [Ssdp 100 (ex_ssdp_named ''__proto__'')] (Client_new ex_opts) of
      Inl e \<Rightarrow> False
    | Inr c \<Rightarrow>
        entry_of c ''constructor'' = Object (Builtin ''constructor'') \<and>
        own_props c (Builtin ''constructor'') DiscoveryName = None \<and>
        (case run ex_opts [Ssdp 101 (ex_ssdp_named ''constructor'')] c of
           Inl e \<Rightarrow> False
         | Inr c' \<Rightarrow>
             map d_uuid (devices c') = [''__proto__'', ''constructor''] \<and>
             map d_name (devices c') =
               [Str ''Chromecast-__proto__._googlecast._tcp.local'',
                Str ''Chromecast-__proto__._googlecast._tcp.local''] \<and>
             own_props c' (Builtin ''constructor'') DiscoveryName = None)) \<and>
   ssdp_uuid ''constructor'' = ''constructor'' \<and>
   synthesized_name ''constructor'' = ''Chromecast-constructor._googlecast._tcp.local''"
  by code_simp

section \<open>Properties of the garbage collector\<close>

text \<open>
  Claim C1 asks that a tick takes a stale record out of the registry and out of the
  staging table. The tick deletes the table entry under \<^verbatim>\<open>device.name\<close>, while the table is
  keyed by the identifier: for a record that mDNS announced, with \<^verbatim>\<open>last_seen\<close> 100 and
  stale at second 110, the record goes, \<^verbatim>\<open>close\<close> is called and \<^verbatim>\<open>device_offline\<close> is
  emitted, and the staged fragment is still there. The tick reads \<^verbatim>\<open>last_seen\<close>; a record
  that has its time only where the reconciliation writes it, in \<^verbatim>\<open>lastSeen\<close>, is never
  stale for the tick: announced at second 100, it is in the registry after the tick of
  second 110.
\<close>

theorem gc_keeps_staged_fragment:
  "devices (gc_tick ex_opts 110 ex_client_one) = [] \<and>
   effects (gc_tick ex_opts 110 ex_client_one) =
     [Close ex_stale, Emit ''device_offline'' ex_stale] \<and>
   internal_devices (gc_tick ex_opts 110 ex_client_one) ex_uuid = Some ex_fragment \<and>
   key_of (d_name ex_stale) = ex_name \<and>
   (case run ex_opts [Mdns 100 ex_mdns, GcTick 110] (Client_new ex_opts) of
      Inl e \<Rightarrow> False
    | Inr c \<Rightarrow>
        map d_uuid (devices c) = [ex_uuid] \<and> map d_lastSeen (devices c) = [Some 100] \<and>
        map d_last_seen (devices c) = [None] \<and>
        map effect_name (effects c) = [''device'', ''device_online''])"
  by code_simp

text \<open>
  Claim C2 asks that one tick visits every record. With two stale records the tick
  removes the first; the second has moved to index 0 when the loop reaches index 1, so it
  is never visited and stays in the registry.
\<close>

theorem gc_skips_after_removal:
  "devices (gc_tick ex_opts 110 ex_client_two) = [ex_stale2] \<and>
   effects (gc_tick ex_opts 110 ex_client_two) =
     [Close ex_stale, Emit ''device_offline'' ex_stale] \<and>
   d_last_seen ex_stale2 = Some 100"
  by code_simp

section \<open>Properties of the mDNS collector\<close>

text \<open>
  Claim C9 names the option \<^verbatim>\<open>mdns_host_strategy\<close>. The constructor reads
  \<^verbatim>\<open>options.mdns_host_stategy\<close>: with \<^verbatim>\<open>mdns_host_strategy: 'srv'\<close> the client stays on
  \<^verbatim>\<open>rinfo\<close> and the record gets the address of the responder; with the key as the source
  spells it, the record gets the target of the SRV record.
\<close>

theorem host_strategy_option_ignored:
  "mdns_host_stategy (Client_new ex_opts_strategy) = ''rinfo'' \<and>
   (case run ex_opts_strategy [Mdns 100 ex_mdns] (Client_new ex_opts_strategy) of
      Inl e \<Rightarrow> False
    | Inr c \<Rightarrow> map d_host (devices c) = [Str ''10.0.0.5'']) \<and>
   mdns_host_stategy (Client_new ex_opts_stategy) = ''srv'' \<and>
   (case run ex_opts_stategy [Mdns 100 ex_mdns] (Client_new ex_opts_stategy) of
      Inl e \<Rightarrow> False
    | Inr c \<Rightarrow> map d_host (devices c) = [Str ''living-room.local''])"
  by code_simp


end
